theory Spec2Isabelle
  imports Main "HOL-Library.Word" "HOL-Library.Signed_Division"
begin

section \<open>Linux route descriptor and punt-to-host descriptor\<close>

text \<open>
  A shallow embedding of the Linux route descriptor (package \<open>descriptor\<close> of the
  Linux L3 plugin) and of the VPP punt-to-host descriptor. Every Go function is a HOL
  function of the same name. What the Go code reads from its collaborators (the
  interface index, the namespace plugin, the Netlink handler, the punt handler) is a
  field of the record \<open>collaborators\<close>; what it calls in packages that are not part of
  these sources (Go's \<open>net\<close> and \<open>strings\<close>, the address utilities, the key builders of
  the models) is a field of the record \<open>golib\<close>. Each operation returns its Go result
  together with the list of calls it made to a collaborator, in order. Logging is left
  out: it reaches no collaborator.
\<close>

subsection \<open>Errors\<close>

text \<open>
  The sentinel errors are package variables made once by \<open>errors.New\<close>; Go compares
  them by identity, so each is a constructor of its own. \<open>Errorf\<close> is an error built
  by \<open>errors.Errorf\<close> inside the descriptor, \<open>OtherError\<close> any other error value (one
  returned by a collaborator, or made anywhere else): neither is ever identical to a
  sentinel, whatever its message.
\<close>

datatype error =
    ErrRouteWithoutInterface
  | ErrRouteWithoutDestination
  | ErrRouteWithUndefinedScope
  | ErrRouteWithInvalidDst
  | ErrRouteWithInvalidGw
  | ErrRouteLinkWithGw
  | ErrPuntWithoutL3Protocol
  | ErrPuntWithoutL4Protocol
  | ErrPuntWithoutPort
  | Errorf string
  | OtherError string

fun errorString :: "error \<Rightarrow> string" where
  "errorString ErrRouteWithoutInterface =
     ''Linux Route defined without outgoing interface reference''"
| "errorString ErrRouteWithoutDestination = ''Linux Route defined without destination network''"
| "errorString ErrRouteWithUndefinedScope = ''Linux Route defined without scope''"
| "errorString ErrRouteWithInvalidDst = ''Linux Route defined with invalid destination network''"
| "errorString ErrRouteWithInvalidGw = ''Linux Route defined with invalid GW address''"
| "errorString ErrRouteLinkWithGw =
     ''Link-local Linux Route was defined with non-empty GW address''"
| "errorString ErrPuntWithoutL3Protocol = ''VPP punt defined without L3 protocol''"
| "errorString ErrPuntWithoutL4Protocol = ''VPP punt defined without L4 protocol''"
| "errorString ErrPuntWithoutPort = ''VPP punt defined without port''"
| "errorString (Errorf msg) = msg"
| "errorString (OtherError msg) = msg"

subsection \<open>Data\<close>

text \<open>
  The scope enums are declared outside these sources. Each has the four values the
  conversion functions name and a rest: \<open>StaticRoute_Scope_other n\<close> is any value of
  the northbound enum that is none of the four (the undefined scope among them),
  \<open>SCOPE_other n\<close> any other Netlink scope; \<open>n\<close> only tells such values apart.
\<close>

datatype StaticRoute_Scope =
    StaticRoute_GLOBAL
  | StaticRoute_HOST
  | StaticRoute_LINK
  | StaticRoute_SITE
  | StaticRoute_Scope_other nat

datatype netlink_Scope =
    SCOPE_UNIVERSE
  | SCOPE_HOST
  | SCOPE_LINK
  | SCOPE_SITE
  | SCOPE_other nat

record StaticRoute =
  OutgoingInterface :: string
  Scope :: StaticRoute_Scope
  DstNetwork :: string
  GwAddr :: string
  Metric :: "32 word"

text \<open>
  \<open>net.IP\<close> and \<open>net.IPMask\<close> are byte slices; a nil slice is the empty list. A
  \<open>*net.IPNet\<close> that may be nil is an \<open>IPNet option\<close>.
\<close>

type_synonym IP = "8 word list"

record IPNet =
  IP :: IP
  Mask :: "8 word list"

datatype ReferenceType =
    NETNS_REF_UNDEFINED
  | NETNS_REF_NSID
  | NETNS_REF_PID
  | NETNS_REF_FD
  | NETNS_REF_MICROSERVICE

record NetNamespace =
  Type :: ReferenceType
  Reference :: string

record LinuxIfMetadata =
  LinuxIfIndex :: int
  Namespace :: "NetNamespace option"

text \<open>The fields of \<open>netlink.Route\<close> that the descriptor sets or reads.\<close>

record netlink_Route =
  LinkIndex :: int
  Dst :: "IPNet option"
  Gw :: IP
  Route_Scope :: netlink_Scope
  Priority :: int

subsection \<open>Go's net package: operations on parsed addresses\<close>

definition v4InV6Prefix :: IP where
  "v4InV6Prefix = [0, 0, 0, 0, 0, 0, 0, 0, 0, 0, 255, 255]"

definition IPv4 :: "8 word \<Rightarrow> 8 word \<Rightarrow> 8 word \<Rightarrow> 8 word \<Rightarrow> IP" where
  "IPv4 a b c d = v4InV6Prefix @ [a, b, c, d]"

definition IPv4zero :: IP where
  "IPv4zero = IPv4 0 0 0 0"

definition IPv6unspecified :: IP where
  "IPv6unspecified = replicate 16 0"

text \<open>\<open>ip.Equal(x)\<close>: an IPv4 address and its 16-byte form are equal.\<close>

definition IP_Equal :: "IP \<Rightarrow> IP \<Rightarrow> bool" where
  "IP_Equal ip x =
     (if length ip = length x then ip = x
      else if length ip = 4 \<and> length x = 16 then take 12 x = v4InV6Prefix \<and> ip = drop 12 x
      else if length ip = 16 \<and> length x = 4 then take 12 ip = v4InV6Prefix \<and> drop 12 ip = x
      else False)"

definition IsUnspecified :: "IP \<Rightarrow> bool" where
  "IsUnspecified ip = (IP_Equal ip IPv4zero \<or> IP_Equal ip IPv6unspecified)"

text \<open>\<open>ip.To4()\<close>: the 4-byte form of an IPv4 address, \<open>None\<close> for nil.\<close>

definition To4 :: "IP \<Rightarrow> IP option" where
  "To4 ip =
     (if length ip = 4 then Some ip
      else if length ip = 16 \<and> take 12 ip = v4InV6Prefix then Some (drop 12 ip)
      else None)"

definition IsLinkLocalUnicast :: "IP \<Rightarrow> bool" where
  "IsLinkLocalUnicast ip =
     (case To4 ip of
        Some ip4 \<Rightarrow> ip4 ! 0 = 169 \<and> ip4 ! 1 = 254
      | None \<Rightarrow> length ip = 16 \<and> ip ! 0 = 254 \<and> and (ip ! 1) 192 = 128)"

subsection \<open>Packages outside these sources\<close>

text \<open>
  The functions of other packages that the descriptor calls, taken as parameters:
  \<open>ParseIP\<close> is \<open>net.ParseIP\<close> (\<open>None\<close> for nil), \<open>ParseCIDR\<close> is the network that
  \<open>net.ParseCIDR\<close> returns (\<open>None\<close> when it returns an error), \<open>ToLower\<close> is
  \<open>strings.ToLower\<close>, \<open>IsIPv6\<close> is the boolean of \<open>addrs.IsIPv6\<close> (the descriptor drops
  its error; the helper reads its argument with \<open>net.ParseIP\<close> and answers false, with
  an error, for a string that is not an address, a network in CIDR notation among
  them), \<open>IP_String\<close> and \<open>IPNet_String\<close> are the \<open>String\<close> methods, \<open>Contains\<close>
  is \<open>(*IPNet).Contains\<close>. The key builders and parsers belong to the models; a parser
  gives \<open>None\<close> when its boolean result is false. \<open>minWorkForGoRoutine\<close> is a constant
  of the package declared in another file.
\<close>

record golib =
  ParseIP :: "string \<Rightarrow> IP option"
  ParseCIDR :: "string \<Rightarrow> IPNet option"
  ToLower :: "string \<Rightarrow> string"
  IsIPv6 :: "string \<Rightarrow> bool"
  IP_String :: "IP \<Rightarrow> string"
  IPNet_String :: "IPNet \<Rightarrow> string"
  Contains :: "IPNet \<Rightarrow> IP \<Rightarrow> bool"
  StaticRouteKey :: "string \<Rightarrow> string \<Rightarrow> string"
  InterfaceStateKey :: "string \<Rightarrow> bool \<Rightarrow> string"
  ParseStaticLinkLocalRouteKey :: "string \<Rightarrow> (IPNet \<times> string) option"
  ParseInterfaceAddressKey :: "string \<Rightarrow> (string \<times> IPNet) option"
  minWorkForGoRoutine :: int

subsection \<open>Collaborators\<close>

text \<open>
  \<open>LookupByName\<close> is \<open>None\<close> when the index reports the name as not found or holds nil
  metadata for it. \<open>SwitchToNamespace\<close> gives the error of the switch, \<open>None\<close> for
  success. The Netlink calls run in the namespace the thread was switched to, so each
  takes that namespace as its first argument. \<open>dumpGoRoutinesCnt\<close> is the field of the
  descriptor.
\<close>

record collaborators =
  LookupByName :: "string \<Rightarrow> LinuxIfMetadata option"
  ListAllInterfaces :: "string list"
  SwitchToNamespace :: "NetNamespace option \<Rightarrow> error option"
  AddStaticRoute :: "NetNamespace option \<Rightarrow> netlink_Route \<Rightarrow> error option"
  DelStaticRoute :: "NetNamespace option \<Rightarrow> netlink_Route \<Rightarrow> error option"
  ReplaceStaticRoute :: "NetNamespace option \<Rightarrow> netlink_Route \<Rightarrow> error option"
  GetStaticRoutes ::
    "NetNamespace option \<Rightarrow> int \<Rightarrow> error + (netlink_Route list \<times> netlink_Route list)"
  dumpGoRoutinesCnt :: int

datatype call =
    Call_LookupByName string
  | Call_ListAllInterfaces
  | Call_SwitchToNamespace "NetNamespace option"
  | Call_revertNs
  | Call_action string netlink_Route
  | Call_GetStaticRoutes int

subsection \<open>Retriable failures\<close>

definition nonRetriableErrs :: "error list" where
  "nonRetriableErrs =
     [ErrRouteWithoutInterface, ErrRouteWithoutDestination, ErrRouteWithUndefinedScope,
      ErrRouteWithInvalidDst, ErrRouteWithInvalidGw, ErrRouteLinkWithGw]"

text \<open>The loop of both \<open>IsRetriableFailure\<close> methods over their list of errors.\<close>

fun rangeNonRetriable :: "error \<Rightarrow> error list \<Rightarrow> bool" where
  "rangeNonRetriable err [] = True"
| "rangeNonRetriable err (nonRetriableErr # rest) =
     (if err = nonRetriableErr then False else rangeNonRetriable err rest)"

definition IsRetriableFailure :: "error \<Rightarrow> bool" where
  "IsRetriableFailure err = rangeNonRetriable err nonRetriableErrs"

text \<open>The list \<open>nonRetriable\<close> of the punt-to-host descriptor and its method.\<close>

definition PuntToHost_nonRetriable :: "error list" where
  "PuntToHost_nonRetriable =
     [ErrPuntWithoutL3Protocol, ErrPuntWithoutL4Protocol, ErrPuntWithoutPort]"

definition PuntToHost_IsRetriableFailure :: "error \<Rightarrow> bool" where
  "PuntToHost_IsRetriableFailure err = rangeNonRetriable err PuntToHost_nonRetriable"

subsection \<open>Add, Delete and Modify of a route\<close>

fun rtScopeFromNBToNetlink :: "StaticRoute_Scope \<Rightarrow> error + netlink_Scope" where
  "rtScopeFromNBToNetlink StaticRoute_GLOBAL = Inr SCOPE_UNIVERSE"
| "rtScopeFromNBToNetlink StaticRoute_HOST = Inr SCOPE_HOST"
| "rtScopeFromNBToNetlink StaticRoute_LINK = Inr SCOPE_LINK"
| "rtScopeFromNBToNetlink StaticRoute_SITE = Inr SCOPE_SITE"
| "rtScopeFromNBToNetlink (StaticRoute_Scope_other n) = Inl ErrRouteWithUndefinedScope"

fun rtScopeFromNetlinkToNB :: "netlink_Scope \<Rightarrow> error + StaticRoute_Scope" where
  "rtScopeFromNetlinkToNB SCOPE_UNIVERSE = Inr StaticRoute_GLOBAL"
| "rtScopeFromNetlinkToNB SCOPE_HOST = Inr StaticRoute_HOST"
| "rtScopeFromNetlinkToNB SCOPE_LINK = Inr StaticRoute_LINK"
| "rtScopeFromNetlinkToNB SCOPE_SITE = Inr StaticRoute_SITE"
| "rtScopeFromNetlinkToNB (SCOPE_other n) = Inl ErrRouteWithUndefinedScope"

text \<open>
  \<open>updateRoute\<close> returns its error (\<open>None\<close> for nil) and the calls made. The deferred
  \<open>revertNs\<close> runs when the function returns after a successful switch.
\<close>

definition updateRoute ::
  "golib \<Rightarrow> collaborators \<Rightarrow> StaticRoute \<Rightarrow> string \<Rightarrow>
   (NetNamespace option \<Rightarrow> netlink_Route \<Rightarrow> error option) \<Rightarrow> error option \<times> call list" where
  "updateRoute lib d route actionName actionClb =
     (if OutgoingInterface route = [] then (Some ErrRouteWithoutInterface, [])
      else if DstNetwork route = [] then (Some ErrRouteWithoutDestination, [])
      else if Scope route = StaticRoute_LINK \<and> GwAddr route \<noteq> [] then
        (Some ErrRouteLinkWithGw, [])
      else
        let lookup = [Call_LookupByName (OutgoingInterface route)] in
        case LookupByName d (OutgoingInterface route) of
          None \<Rightarrow>
            (Some (Errorf (''failed to obtain metadata for interface '' @
               OutgoingInterface route)), lookup)
        | Some ifMeta \<Rightarrow>
            (case ParseCIDR lib (DstNetwork route) of
               None \<Rightarrow> (Some ErrRouteWithInvalidDst, lookup)
             | Some dstNet \<Rightarrow>
                 (case (if GwAddr route \<noteq> [] then
                          (case ParseIP lib (GwAddr route) of
                             None \<Rightarrow> Inl ErrRouteWithInvalidGw
                           | Some gwAddr \<Rightarrow> Inr gwAddr)
                        else Inr []) of
                    Inl err \<Rightarrow> (Some err, lookup)
                  | Inr gw \<Rightarrow>
                      (case rtScopeFromNBToNetlink (Scope route) of
                         Inl err \<Rightarrow> (Some err, lookup)
                       | Inr scope \<Rightarrow>
                           let netlinkRoute =
                                 \<lparr>LinkIndex = LinuxIfIndex ifMeta, Dst = Some dstNet, Gw = gw,
                                  Route_Scope = scope, Priority = uint (Metric route)\<rparr>;
                               switch = lookup @ [Call_SwitchToNamespace (Namespace ifMeta)]
                           in
                           (case SwitchToNamespace d (Namespace ifMeta) of
                              Some err \<Rightarrow>
                                (Some (Errorf (''failed to switch namespace: '' @
                                   errorString err)), switch)
                            | None \<Rightarrow>
                                let calls = switch @
                                      [Call_action actionName netlinkRoute, Call_revertNs]
                                in
                                (case actionClb (Namespace ifMeta) netlinkRoute of
                                   Some err \<Rightarrow>
                                     (Some (Errorf (''failed to '' @ actionName @
                                        '' linux route: '' @ errorString err)), calls)
                                 | None \<Rightarrow> (None, calls)))))))"

text \<open>
  \<open>Add\<close> and \<open>Modify\<close> return nil metadata with the error of \<open>updateRoute\<close>: the
  result is the metadata (always \<open>None\<close>), the error and the calls.
\<close>

definition Add ::
  "golib \<Rightarrow> collaborators \<Rightarrow> string \<Rightarrow> StaticRoute \<Rightarrow> (unit option \<times> error option) \<times> call list" where
  "Add lib d key route =
     (let (err, calls) = updateRoute lib d route ''add'' (AddStaticRoute d)
      in ((None, err), calls))"

definition Delete ::
  "golib \<Rightarrow> collaborators \<Rightarrow> string \<Rightarrow> StaticRoute \<Rightarrow> unit option \<Rightarrow> error option \<times> call list" where
  "Delete lib d key route metadata = updateRoute lib d route ''delete'' (DelStaticRoute d)"

definition Modify ::
  "golib \<Rightarrow> collaborators \<Rightarrow> string \<Rightarrow> StaticRoute \<Rightarrow> StaticRoute \<Rightarrow> unit option \<Rightarrow>
   (unit option \<times> error option) \<times> call list" where
  "Modify lib d key oldRoute newRoute oldMetadata =
     (let (err, calls) = updateRoute lib d newRoute ''modify'' (ReplaceStaticRoute d)
      in ((None, err), calls))"

subsection \<open>Equivalence of routes\<close>

definition ipv4AddrAny :: string where
  "ipv4AddrAny = ''0.0.0.0''"

definition ipv6AddrAny :: string where
  "ipv6AddrAny = ''::''"

definition routeOutInterfaceDep :: string where
  "routeOutInterfaceDep = ''interface''"

definition routeGwReachabilityDep :: string where
  "routeGwReachabilityDep = ''gw-reachability''"

definition equalAddrs :: "golib \<Rightarrow> string \<Rightarrow> string \<Rightarrow> bool" where
  "equalAddrs lib addr1 addr2 =
     (case ParseIP lib addr1 of
        None \<Rightarrow> ToLower lib addr1 = ToLower lib addr2
      | Some a1 \<Rightarrow>
          (case ParseIP lib addr2 of
             None \<Rightarrow> ToLower lib addr1 = ToLower lib addr2
           | Some a2 \<Rightarrow> IP_Equal a1 a2))"

definition equalNetworks :: "golib \<Rightarrow> string \<Rightarrow> string \<Rightarrow> bool" where
  "equalNetworks lib net1 net2 =
     (case ParseCIDR lib net1 of
        None \<Rightarrow> ToLower lib net1 = ToLower lib net2
      | Some n1 \<Rightarrow>
          (case ParseCIDR lib net2 of
             None \<Rightarrow> ToLower lib net1 = ToLower lib net2
           | Some n2 \<Rightarrow> IP_Equal (IP n1) (IP n2) \<and> Mask n1 = Mask n2))"

definition getGwAddr :: "golib \<Rightarrow> StaticRoute \<Rightarrow> string" where
  "getGwAddr lib route =
     (if GwAddr route = [] then
        (if IsIPv6 lib (DstNetwork route) then ipv6AddrAny else ipv4AddrAny)
      else GwAddr route)"

definition EquivalentRoutes :: "golib \<Rightarrow> string \<Rightarrow> StaticRoute \<Rightarrow> StaticRoute \<Rightarrow> bool" where
  "EquivalentRoutes lib key oldRoute newRoute =
     (if OutgoingInterface oldRoute \<noteq> OutgoingInterface newRoute \<or>
         Scope oldRoute \<noteq> Scope newRoute \<or>
         Metric oldRoute \<noteq> Metric newRoute then False
      else if \<not> equalNetworks lib (DstNetwork oldRoute) (DstNetwork newRoute) then False
      else equalAddrs lib (getGwAddr lib oldRoute) (getGwAddr lib newRoute))"

subsection \<open>Dependencies of a route\<close>

text \<open>
  A \<open>scheduler.Dependency\<close> has a label and either a key or a predicate on keys
  (\<open>AnyOf\<close>, \<open>None\<close> for nil).
\<close>

record Dependency =
  Label :: string
  Dep_Key :: string
  AnyOf :: "(string \<Rightarrow> bool) option"

text \<open>The function literal that \<open>Dependencies\<close> stores in \<open>AnyOf\<close>.\<close>

definition gwReachable :: "golib \<Rightarrow> StaticRoute \<Rightarrow> IP \<Rightarrow> string \<Rightarrow> bool" where
  "gwReachable lib route gwAddr key =
     (if (case ParseStaticLinkLocalRouteKey lib key of
            None \<Rightarrow> False
          | Some (dstAddr, ifName) \<Rightarrow>
              ifName = OutgoingInterface route \<and> Contains lib dstAddr gwAddr) then True
      else if (case ParseInterfaceAddressKey lib key of
                 None \<Rightarrow> False
               | Some (ifName, addr) \<Rightarrow>
                   ifName = OutgoingInterface route \<and> Contains lib addr gwAddr) then True
      else False)"

definition Dependencies :: "golib \<Rightarrow> string \<Rightarrow> StaticRoute \<Rightarrow> Dependency list" where
  "Dependencies lib key route =
     (let dependencies =
            (if OutgoingInterface route \<noteq> [] then
               [\<lparr>Label = routeOutInterfaceDep,
                 Dep_Key = InterfaceStateKey lib (OutgoingInterface route) True,
                 AnyOf = None\<rparr>]
             else [])
      in
      case ParseIP lib (getGwAddr lib route) of
        None \<Rightarrow> dependencies
      | Some gwAddr \<Rightarrow>
          if \<not> IsUnspecified gwAddr then
            dependencies @
              [\<lparr>Label = routeGwReachabilityDep, Dep_Key = [],
                AnyOf = Some (gwReachable lib route gwAddr)\<rparr>]
          else dependencies)"

subsection \<open>Dump of the routes\<close>

datatype ValueOrigin = UnknownOrigin | FromNB | FromSB

record RouteKVWithMetadata =
  Key :: string
  Value :: StaticRoute
  Metadata :: "unit option"
  Origin :: ValueOrigin

record routeDump =
  routes :: "RouteKVWithMetadata list"
  err :: "error option"

text \<open>
  The inner loop of \<open>dumpRoutes\<close> over \<open>append(v4Routes, v6Routes...)\<close>: \<open>nv4\<close> is
  \<open>len(v4Routes)\<close>, \<open>idx\<close> the index of the route at the head of the list, \<open>acc\<close> the
  routes dumped so far.
\<close>

fun convertRoutes ::
  "golib \<Rightarrow> string \<Rightarrow> nat \<Rightarrow> nat \<Rightarrow> netlink_Route list \<Rightarrow> RouteKVWithMetadata list \<Rightarrow>
   RouteKVWithMetadata list" where
  "convertRoutes lib ifName nv4 idx [] acc = acc"
| "convertRoutes lib ifName nv4 idx (route # rest) acc =
     (case (case Dst route of
              None \<Rightarrow> Some (if idx < nv4 then ipv4AddrAny @ ''/0'' else ipv6AddrAny @ ''/0'')
            | Some dst \<Rightarrow>
                if To4 (IP dst) = None \<and> IsLinkLocalUnicast (IP dst) then None
                else Some (IPNet_String lib dst)) of
        None \<Rightarrow> convertRoutes lib ifName nv4 (idx + 1) rest acc
      | Some dstNet \<Rightarrow>
          let gwAddr = (if length (Gw route) \<noteq> 0 then IP_String lib (Gw route) else []) in
          (case rtScopeFromNetlinkToNB (Route_Scope route) of
             Inl e \<Rightarrow> convertRoutes lib ifName nv4 (idx + 1) rest acc
           | Inr scope \<Rightarrow>
               convertRoutes lib ifName nv4 (idx + 1) rest
                 (acc @
                  [\<lparr>Key = StaticRouteKey lib dstNet ifName,
                    Value = \<lparr>OutgoingInterface = ifName, Scope = scope, DstNetwork = dstNet,
                             GwAddr = gwAddr, Metric = word_of_int (Priority route)\<rparr>,
                    Metadata = None,
                    Origin = UnknownOrigin\<rparr>])))"

text \<open>
  One pass of the outer loop of \<open>dumpRoutes\<close>, for the interface \<open>ifName\<close>: the new
  dump and calls, and whether the loop goes on (\<open>True\<close>) or breaks.
\<close>

definition dumpInterface ::
  "golib \<Rightarrow> collaborators \<Rightarrow> string \<Rightarrow> routeDump \<times> call list \<Rightarrow>
   bool \<times> routeDump \<times> call list" where
  "dumpInterface lib d ifName st =
     (let (dump, calls) = st;
          calls1 = calls @ [Call_LookupByName ifName] in
      case LookupByName d ifName of
        None \<Rightarrow>
          (False,
           dump\<lparr>err := Some (Errorf (''failed to obtain metadata for interface '' @ ifName))\<rparr>,
           calls1)
      | Some ifMeta \<Rightarrow>
          let calls2 = calls1 @ [Call_SwitchToNamespace (Namespace ifMeta)] in
          (case SwitchToNamespace d (Namespace ifMeta) of
             Some e \<Rightarrow> (True, dump, calls2)
           | None \<Rightarrow>
               let calls3 = calls2 @ [Call_GetStaticRoutes (LinuxIfIndex ifMeta), Call_revertNs] in
               (case GetStaticRoutes d (Namespace ifMeta) (LinuxIfIndex ifMeta) of
                  Inl e \<Rightarrow> (False, dump\<lparr>err := Some e\<rparr>, calls3)
                | Inr (v4Routes, v6Routes) \<Rightarrow>
                    (True,
                     dump\<lparr>routes :=
                       convertRoutes lib ifName (length v4Routes) 0 (v4Routes @ v6Routes)
                         (routes dump)\<rparr>,
                     calls3))))"

text \<open>
  The outer loop \<open>for i := goRoutineIdx; i < len(interfaces); i += goRoutinesCnt\<close>.
  With \<open>goRoutinesCnt = 0\<close> it may run forever: not returning is \<open>None\<close>. The indices
  are natural numbers: \<open>Dump\<close> starts a worker only with \<open>0 \<le> goRoutineIdx\<close> and
  \<open>1 \<le> goRoutinesCnt\<close>, and a slice is far shorter than the range of \<open>int\<close>.
\<close>

partial_function (option) dumpRoutesLoop ::
  "golib \<Rightarrow> collaborators \<Rightarrow> string list \<Rightarrow> nat \<Rightarrow> nat \<Rightarrow> routeDump \<times> call list \<Rightarrow>
   (routeDump \<times> call list) option" where
  "dumpRoutesLoop lib d interfaces i goRoutinesCnt st =
     (if i < length interfaces then
        (if fst (dumpInterface lib d (interfaces ! i) st) then
           dumpRoutesLoop lib d interfaces (i + goRoutinesCnt) goRoutinesCnt
             (snd (dumpInterface lib d (interfaces ! i) st))
         else Some (snd (dumpInterface lib d (interfaces ! i) st)))
      else Some st)"

text \<open>\<open>dumpRoutes\<close>: the value the worker sends to \<open>dumpCh\<close>, and its calls.\<close>

definition dumpRoutes ::
  "golib \<Rightarrow> collaborators \<Rightarrow> string list \<Rightarrow> nat \<Rightarrow> nat \<Rightarrow> (routeDump \<times> call list) option" where
  "dumpRoutes lib d interfaces goRoutineIdx goRoutinesCnt =
     dumpRoutesLoop lib d interfaces goRoutineIdx goRoutinesCnt (\<lparr>routes = [], err = None\<rparr>, [])"

text \<open>
  The indices that the loop header of \<open>dumpRoutes\<close> runs through when no pass breaks:
  the same header, collecting \<open>i\<close>.
\<close>

partial_function (option) strideLoop :: "nat \<Rightarrow> nat \<Rightarrow> nat \<Rightarrow> nat list \<Rightarrow> nat list option" where
  "strideLoop i goRoutinesCnt len acc =
     (if i < len then strideLoop (i + goRoutinesCnt) goRoutinesCnt len (acc @ [i])
      else Some acc)"

definition workerIndices :: "nat \<Rightarrow> nat \<Rightarrow> nat \<Rightarrow> nat list option" where
  "workerIndices goRoutineIdx goRoutinesCnt len = strideLoop goRoutineIdx goRoutinesCnt len []"

text \<open>
  Whether the pass of the outer loop of \<open>dumpRoutes\<close> for \<open>ifName\<close> ends in \<open>break\<close>:
  the interface is not in the index, or reading its routes fails. A namespace that
  cannot be entered ends the pass with \<open>continue\<close>.
\<close>

definition passBreaks :: "collaborators \<Rightarrow> string \<Rightarrow> bool" where
  "passBreaks d ifName =
     (case LookupByName d ifName of
        None \<Rightarrow> True
      | Some ifMeta \<Rightarrow>
          (case SwitchToNamespace d (Namespace ifMeta) of
             Some e \<Rightarrow> False
           | None \<Rightarrow> isl (GetStaticRoutes d (Namespace ifMeta) (LinuxIfIndex ifMeta))))"

text \<open>The interface names that a list of calls looks up in the interface index.\<close>

fun lookedUp :: "call list \<Rightarrow> string list" where
  "lookedUp [] = []"
| "lookedUp (Call_LookupByName ifName # calls) = ifName # lookedUp calls"
| "lookedUp (c # calls) = lookedUp calls"

text \<open>The number of workers that \<open>Dump\<close> starts; \<open>sdiv\<close> is Go's truncating division.\<close>

definition goRoutinesCnt :: "golib \<Rightarrow> collaborators \<Rightarrow> string list \<Rightarrow> int" where
  "goRoutinesCnt lib d interfaces =
     (let cnt = int (length interfaces) sdiv minWorkForGoRoutine lib;
          cnt = (if cnt = 0 then 1 else cnt)
      in if cnt > dumpGoRoutinesCnt d then dumpGoRoutinesCnt d else cnt)"

text \<open>
  The second loop of \<open>Dump\<close>: it receives from \<open>dumpCh\<close> once per worker, and returns
  at the first received value that carries an error. \<open>received\<close> lists the workers in
  the order in which their values are received, \<open>worker i\<close> is the value worker \<open>i\<close>
  sends (\<open>None\<close> if it never sends one).
\<close>

fun collectLoop ::
  "(nat \<Rightarrow> routeDump option) \<Rightarrow> nat list \<Rightarrow> RouteKVWithMetadata list \<Rightarrow>
   (RouteKVWithMetadata list \<times> error option) option" where
  "collectLoop worker [] dump = Some (dump, None)"
| "collectLoop worker (i # received) dump =
     (case worker i of
        None \<Rightarrow> None
      | Some routeDump \<Rightarrow>
          (case err routeDump of
             Some e \<Rightarrow> Some (dump, Some e)
           | None \<Rightarrow> collectLoop worker received (dump @ routes routeDump)))"

text \<open>
  \<open>Dump\<close>. With a negative number of workers \<open>make(chan routeDump, goRoutinesCnt)\<close>
  panics, before any worker starts. Otherwise the workers run, concurrently when there
  are several; each reads the collaborators only, so what a worker sends does not
  depend on the interleaving, and the order of arrival at the channel is the parameter
  \<open>received\<close>, a permutation of the workers \<open>0, \<dots>, goRoutinesCnt - 1\<close> (with one worker,
  the call is synchronous and \<open>received = [0]\<close>). The result is \<open>None\<close> when \<open>Dump\<close>
  does not return, \<open>Inl\<close> a panic, \<open>Inr\<close> what it returns.
\<close>

datatype panic = MakechanSizeOutOfRange

definition Dump ::
  "golib \<Rightarrow> collaborators \<Rightarrow> nat list \<Rightarrow> RouteKVWithMetadata list \<Rightarrow>
   (panic + RouteKVWithMetadata list \<times> error option) option" where
  "Dump lib d received correlate =
     (let interfaces = ListAllInterfaces d;
          cnt = goRoutinesCnt lib d interfaces
      in if cnt < 0 then Some (Inl MakechanSizeOutOfRange)
         else map_option Inr
           (collectLoop (\<lambda>idx. map_option fst (dumpRoutes lib d interfaces idx (nat cnt)))
              received []))"

text \<open>What worker \<open>idx\<close> of \<open>Dump\<close> sends to the channel.\<close>

definition sentByWorker :: "golib \<Rightarrow> collaborators \<Rightarrow> nat \<Rightarrow> routeDump option" where
  "sentByWorker lib d idx =
     map_option fst
       (dumpRoutes lib d (ListAllInterfaces d) idx
          (nat (goRoutinesCnt lib d (ListAllInterfaces d))))"

subsection \<open>The punt-to-host descriptor\<close>

datatype L3Protocol = L3Protocol_IPv4 | L3Protocol_IPv6 | L3Protocol_ALL | L3Protocol_other nat

datatype L4Protocol = L4Protocol_TCP | L4Protocol_UDP | L4Protocol_other nat

record ToHost =
  L3Protocol :: L3Protocol
  L4Protocol :: L4Protocol
  Port :: "32 word"
  SocketPath :: string

text \<open>
  The descriptor's punt handler: the error of each call (\<open>None\<close> for nil).
  \<open>vppPunts\<close> is the punt-to-host configuration that exists in VPP; the handler's API
  has no call that reads it.
\<close>

record PuntToHostDescriptor =
  AddPunt :: "ToHost \<Rightarrow> error option"
  RegisterPuntSocket :: "ToHost \<Rightarrow> error option"
  DeregisterPuntSocket :: "ToHost \<Rightarrow> error option"
  vppPunts :: "ToHost list"

datatype punt_call =
    Call_AddPunt ToHost
  | Call_RegisterPuntSocket ToHost
  | Call_DeregisterPuntSocket ToHost

record PuntToHostKVWithMetadata =
  Punt_Key :: string
  Punt_Value :: ToHost
  Punt_Metadata :: "unit option"
  Punt_Origin :: ValueOrigin

definition validatePuntConfig :: "ToHost \<Rightarrow> error option" where
  "validatePuntConfig puntCfg =
     (if (case L3Protocol puntCfg of L3Protocol_other n \<Rightarrow> True | _ \<Rightarrow> False) then
        Some ErrPuntWithoutL3Protocol
      else if (case L4Protocol puntCfg of L4Protocol_other n \<Rightarrow> True | _ \<Rightarrow> False) then
        Some ErrPuntWithoutL4Protocol
      else if Port puntCfg = 0 then Some ErrPuntWithoutPort
      else None)"

definition PuntToHost_Add ::
  "PuntToHostDescriptor \<Rightarrow> string \<Rightarrow> ToHost \<Rightarrow> (unit option \<times> error option) \<times> punt_call list" where
  "PuntToHost_Add d key punt =
     (case validatePuntConfig punt of
        Some e \<Rightarrow> ((None, Some e), [])
      | None \<Rightarrow>
          if SocketPath punt = [] then ((None, AddPunt d punt), [Call_AddPunt punt])
          else ((None, RegisterPuntSocket d punt), [Call_RegisterPuntSocket punt]))"

definition PuntToHost_Delete ::
  "PuntToHostDescriptor \<Rightarrow> string \<Rightarrow> ToHost \<Rightarrow> unit option \<Rightarrow> error option \<times> punt_call list" where
  "PuntToHost_Delete d key punt metadata =
     (if SocketPath punt = [] then (None, [])
      else (DeregisterPuntSocket d punt, [Call_DeregisterPuntSocket punt]))"

definition PuntToHost_Dump ::
  "PuntToHostDescriptor \<Rightarrow> PuntToHostKVWithMetadata list \<Rightarrow>
   (PuntToHostKVWithMetadata list \<times> error option) \<times> punt_call list" where
  "PuntToHost_Dump d correlate = (([], None), [])"

subsection \<open>The validation order as the specification words it\<close>

text \<open>
  The checks of a route in the order the specification lists them, each with its
  error: presence of the outgoing interface, presence of the destination, the
  constraint of the link-local scope, the parse of the destination network, the parse
  of the gateway address, the scope. \<open>firstViolated\<close> is the error of the first check
  that fails.
\<close>

definition validationChecks :: "golib \<Rightarrow> StaticRoute \<Rightarrow> (bool \<times> error) list" where
  "validationChecks lib route =
     [(OutgoingInterface route = [], ErrRouteWithoutInterface),
      (DstNetwork route = [], ErrRouteWithoutDestination),
      (Scope route = StaticRoute_LINK \<and> GwAddr route \<noteq> [], ErrRouteLinkWithGw),
      (ParseCIDR lib (DstNetwork route) = None, ErrRouteWithInvalidDst),
      (GwAddr route \<noteq> [] \<and> ParseIP lib (GwAddr route) = None, ErrRouteWithInvalidGw),
      (isl (rtScopeFromNBToNetlink (Scope route)), ErrRouteWithUndefinedScope)]"

definition firstViolated :: "golib \<Rightarrow> StaticRoute \<Rightarrow> error option" where
  "firstViolated lib route = map_option snd (find fst (validationChecks lib route))"

text \<open>The checks that \<open>updateRoute\<close> makes before its first call to a collaborator.\<close>

definition checkedBeforeLookup :: "error list" where
  "checkedBeforeLookup =
     [ErrRouteWithoutInterface, ErrRouteWithoutDestination, ErrRouteLinkWithGw]"

subsection \<open>Letter case and the library\<close>



subsection \<open>A library and collaborators for worked examples\<close>

text \<open>
  A small instance of the library, enough to run the descriptor on the strings of the
  examples below: it lowers ASCII letters, knows the addresses and networks of its two
  tables (with the bytes Go's parsers return for them) and takes every other string as
  unparsable. Its \<open>IsIPv6\<close> does what the address utilities do: it parses the string
  as an address and answers whether the address has no 4-byte form, and false for a
  string that is not an address.
\<close>

definition lowerChar :: "char \<Rightarrow> char" where
  "lowerChar c =
     (if 65 \<le> (of_char c :: nat) \<and> (of_char c :: nat) \<le> 90 then
        (case c of Char b0 b1 b2 b3 b4 b5 b6 b7 \<Rightarrow> Char b0 b1 b2 b3 b4 True b6 b7)
      else c)"

definition asciiLower :: "string \<Rightarrow> string" where
  "asciiLower s = map lowerChar s"

definition sampleAddrs :: "(string \<times> IP) list" where
  "sampleAddrs =
     [(''0.0.0.0'', IPv4 0 0 0 0),
      (''::'', IPv6unspecified),
      (''10.0.0.1'', IPv4 10 0 0 1),
      (''fe80::1'', [254, 128, 0, 0, 0, 0, 0, 0, 0, 0, 0, 0, 0, 0, 0, 1])]"

definition sampleNets :: "(string \<times> IPNet) list" where
  "sampleNets =
     [(''10.0.0.0/24'', \<lparr>IP = [10, 0, 0, 0], Mask = [255, 255, 255, 0]\<rparr>),
      (''10.0.0.1/24'', \<lparr>IP = [10, 0, 0, 0], Mask = [255, 255, 255, 0]\<rparr>),
      (''169.254.0.0/16'', \<lparr>IP = [169, 254, 0, 0], Mask = [255, 255, 0, 0]\<rparr>),
      (''2001:db8::/32'',
       \<lparr>IP = [32, 1, 13, 184, 0, 0, 0, 0, 0, 0, 0, 0, 0, 0, 0, 0],
        Mask = [255, 255, 255, 255, 0, 0, 0, 0, 0, 0, 0, 0, 0, 0, 0, 0]\<rparr>)]"

definition sampleLib :: golib where
  "sampleLib =
     \<lparr>ParseIP = (\<lambda>s. map_of sampleAddrs (asciiLower s)),
      ParseCIDR = (\<lambda>s. map_of sampleNets (asciiLower s)),
      ToLower = asciiLower,
      IsIPv6 =
        (\<lambda>s. case map_of sampleAddrs (asciiLower s) of
                None \<Rightarrow> False
              | Some ip \<Rightarrow> To4 ip = None),
      IP_String = (\<lambda>ip. ''10.0.0.1''),
      IPNet_String = (\<lambda>n. ''10.0.0.0/24''),
      Contains = (\<lambda>n ip. False),
      StaticRouteKey = (\<lambda>dstNet ifName. ''route/'' @ dstNet @ ''/'' @ ifName),
      InterfaceStateKey = (\<lambda>ifName up. ''interface/'' @ ifName),
      ParseStaticLinkLocalRouteKey = (\<lambda>key. None),
      ParseInterfaceAddressKey = (\<lambda>key. None),
      minWorkForGoRoutine = 3\<rparr>"

text \<open>
  Collaborators with two interfaces in the default namespace: \<open>eth0\<close> carries one
  default route, reading the routes of \<open>eth1\<close> fails; every other call succeeds.
\<close>

definition sampleDefaultRoute :: netlink_Route where
  "sampleDefaultRoute =
     \<lparr>LinkIndex = 2, Dst = None, Gw = [], Route_Scope = SCOPE_UNIVERSE, Priority = 0\<rparr>"

definition sampleCollaborators :: collaborators where
  "sampleCollaborators =
     \<lparr>LookupByName =
        (\<lambda>name. if name = ''eth0'' then Some \<lparr>LinuxIfIndex = 2, Namespace = None\<rparr>
                else if name = ''eth1'' then Some \<lparr>LinuxIfIndex = 3, Namespace = None\<rparr>
                else None),
      ListAllInterfaces = [''eth0'', ''eth1''],
      SwitchToNamespace = (\<lambda>ns. None),
      AddStaticRoute = (\<lambda>ns r. None),
      DelStaticRoute = (\<lambda>ns r. None),
      ReplaceStaticRoute = (\<lambda>ns r. None),
      GetStaticRoutes =
        (\<lambda>ns idx. if idx = 2 then Inr ([sampleDefaultRoute], [])
                  else Inl (OtherError ''no such device'')),
      dumpGoRoutinesCnt = 10\<rparr>"

text \<open>The same collaborators when every interface carries one default route.\<close>

definition sampleHealthy :: collaborators where
  "sampleHealthy =
     sampleCollaborators\<lparr>GetStaticRoutes := (\<lambda>ns idx. Inr ([sampleDefaultRoute], []))\<rparr>"

definition sampleRoute :: StaticRoute where
  "sampleRoute =
     \<lparr>OutgoingInterface = ''eth0'', Scope = StaticRoute_GLOBAL, DstNetwork = ''10.0.0.0/24'',
      GwAddr = ''10.0.0.1'', Metric = 0\<rparr>"

definition samplePunt :: ToHost where
  "samplePunt =
     \<lparr>L3Protocol = L3Protocol_IPv4, L4Protocol = L4Protocol_UDP, Port = 9000,
      SocketPath = []\<rparr>"

definition samplePuntDescriptor :: PuntToHostDescriptor where
  "samplePuntDescriptor =
     \<lparr>AddPunt = (\<lambda>p. None),
      RegisterPuntSocket = (\<lambda>p. None),
      DeregisterPuntSocket = (\<lambda>p. Some (OtherError ''socket not registered'')),
      vppPunts = [samplePunt]\<rparr>"

section \<open>Properties\<close>

subsection \<open>Retriable failures\<close>

lemma rangeNonRetriable_iff: "rangeNonRetriable e errs = (e \<notin> set errs)"
  by (induction errs) auto

text \<open>
  Claim C4. The route descriptor's \<open>IsRetriableFailure\<close> is false exactly on its six
  terminal errors, the punt-to-host descriptor's exactly on its three; every other
  error value, a freshly made one whatever its message among them, is retriable.
\<close>

theorem IsRetriableFailure_terminal_sets:
  "(\<not> IsRetriableFailure e) =
     (e \<in> {ErrRouteWithoutInterface, ErrRouteWithoutDestination, ErrRouteWithUndefinedScope,
            ErrRouteWithInvalidDst, ErrRouteWithInvalidGw, ErrRouteLinkWithGw}) \<and>
   (\<not> PuntToHost_IsRetriableFailure e) =
     (e \<in> {ErrPuntWithoutL3Protocol, ErrPuntWithoutL4Protocol, ErrPuntWithoutPort}) \<and>
   IsRetriableFailure (Errorf msg) \<and> IsRetriableFailure (OtherError msg) \<and>
   PuntToHost_IsRetriableFailure (Errorf msg) \<and> PuntToHost_IsRetriableFailure (OtherError msg)"
  by (simp add: IsRetriableFailure_def PuntToHost_IsRetriableFailure_def rangeNonRetriable_iff
      nonRetriableErrs_def PuntToHost_nonRetriable_def)

theorem IsRetriableFailure_terminal_sets_witness:
  "\<not> IsRetriableFailure ErrRouteWithInvalidGw \<and>
   PuntToHost_IsRetriableFailure ErrRouteWithInvalidGw \<and>
   \<not> PuntToHost_IsRetriableFailure ErrPuntWithoutPort \<and>
   IsRetriableFailure ErrPuntWithoutPort \<and>
   IsRetriableFailure (OtherError ''Linux Route defined without scope'')"
  using IsRetriableFailure_terminal_sets [of ErrRouteWithInvalidGw "''x''"]
    IsRetriableFailure_terminal_sets [of ErrPuntWithoutPort "''Linux Route defined without scope''"]
  by simp

subsection \<open>Validation in Add, Delete and Modify\<close>

text \<open>
  Claim C2. For a route whose outgoing interface is empty, \<open>Add\<close>, \<open>Delete\<close> and
  \<open>Modify\<close> each return \<open>ErrRouteWithoutInterface\<close>, a terminal error, and make no
  call to a collaborator: no lookup in the interface index, no switch of namespace, no
  Netlink operation.
\<close>

theorem no_interface_no_call:
  assumes "OutgoingInterface route = []"
  shows "Add lib d key route = ((None, Some ErrRouteWithoutInterface), []) \<and>
         Delete lib d key route metadata = (Some ErrRouteWithoutInterface, []) \<and>
         Modify lib d key oldRoute route oldMetadata =
           ((None, Some ErrRouteWithoutInterface), []) \<and>
         \<not> IsRetriableFailure ErrRouteWithoutInterface"
  using assms
  by (simp add: Add_def Delete_def Modify_def updateRoute_def IsRetriableFailure_def
      nonRetriableErrs_def)

theorem no_interface_no_call_witness:
  "OutgoingInterface (sampleRoute\<lparr>OutgoingInterface := []\<rparr>) = [] \<and>
   Add sampleLib sampleCollaborators ''k'' (sampleRoute\<lparr>OutgoingInterface := []\<rparr>) =
     ((None, Some ErrRouteWithoutInterface), []) \<and>
   Delete sampleLib sampleCollaborators ''k'' (sampleRoute\<lparr>OutgoingInterface := []\<rparr>) None =
     (Some ErrRouteWithoutInterface, []) \<and>
   Modify sampleLib sampleCollaborators ''k'' sampleRoute
     (sampleRoute\<lparr>OutgoingInterface := []\<rparr>) None =
     ((None, Some ErrRouteWithoutInterface), [])"
  using no_interface_no_call [of "sampleRoute\<lparr>OutgoingInterface := []\<rparr>" sampleLib
      sampleCollaborators "''k''" None sampleRoute None]
  by simp

text \<open>
  Claim C3, as amended. For a route with a non-empty outgoing interface, a non-empty
  destination network, the link-local scope and a non-empty gateway address, \<open>Add\<close>
  and \<open>Modify\<close> return \<open>ErrRouteLinkWithGw\<close>, a terminal error, without a call to a
  collaborator.
\<close>

theorem link_with_gw_rejected:
  assumes "OutgoingInterface route \<noteq> []" and "DstNetwork route \<noteq> []"
    and "Scope route = StaticRoute_LINK" and "GwAddr route \<noteq> []"
  shows "Add lib d key route = ((None, Some ErrRouteLinkWithGw), []) \<and>
         Modify lib d key oldRoute route oldMetadata = ((None, Some ErrRouteLinkWithGw), []) \<and>
         \<not> IsRetriableFailure ErrRouteLinkWithGw"
  using assms
  by (simp add: Add_def Modify_def updateRoute_def IsRetriableFailure_def nonRetriableErrs_def)

theorem link_with_gw_rejected_witness:
  "OutgoingInterface (sampleRoute\<lparr>Scope := StaticRoute_LINK\<rparr>) \<noteq> [] \<and>
   DstNetwork (sampleRoute\<lparr>Scope := StaticRoute_LINK\<rparr>) \<noteq> [] \<and>
   Scope (sampleRoute\<lparr>Scope := StaticRoute_LINK\<rparr>) = StaticRoute_LINK \<and>
   GwAddr (sampleRoute\<lparr>Scope := StaticRoute_LINK\<rparr>) \<noteq> [] \<and>
   Add sampleLib sampleCollaborators ''k'' (sampleRoute\<lparr>Scope := StaticRoute_LINK\<rparr>) =
     ((None, Some ErrRouteLinkWithGw), []) \<and>
   Modify sampleLib sampleCollaborators ''k'' sampleRoute
     (sampleRoute\<lparr>Scope := StaticRoute_LINK\<rparr>) None = ((None, Some ErrRouteLinkWithGw), [])"
proof -
  let ?r = "sampleRoute\<lparr>Scope := StaticRoute_LINK\<rparr>"
  have h: "OutgoingInterface ?r \<noteq> []" "DstNetwork ?r \<noteq> []" "Scope ?r = StaticRoute_LINK"
    "GwAddr ?r \<noteq> []"
    by (simp_all add: sampleRoute_def)
  from link_with_gw_rejected [OF h, of sampleLib sampleCollaborators "''k''" sampleRoute None] h
  show ?thesis by simp
qed

text \<open>
  The claim as first stated asks nothing of the interface and the destination: a
  link-local route with a gateway and no outgoing interface is rejected for the missing
  interface, which is checked first.
\<close>

theorem link_with_gw_counterexample:
  "Scope (sampleRoute\<lparr>OutgoingInterface := [], Scope := StaticRoute_LINK\<rparr>) = StaticRoute_LINK \<and>
   GwAddr (sampleRoute\<lparr>OutgoingInterface := [], Scope := StaticRoute_LINK\<rparr>) \<noteq> [] \<and>
   Add sampleLib sampleCollaborators ''k''
     (sampleRoute\<lparr>OutgoingInterface := [], Scope := StaticRoute_LINK\<rparr>) =
     ((None, Some ErrRouteWithoutInterface), []) \<and>
   Modify sampleLib sampleCollaborators ''k'' sampleRoute
     (sampleRoute\<lparr>OutgoingInterface := [], Scope := StaticRoute_LINK\<rparr>) None =
     ((None, Some ErrRouteWithoutInterface), []) \<and>
   ErrRouteWithoutInterface \<noteq> ErrRouteLinkWithGw"
  by (simp add: Add_def Modify_def updateRoute_def sampleRoute_def)

text \<open>
  The result of \<open>updateRoute\<close> against the order of checks of the specification,
  \<open>firstViolated\<close>: before the lookup, when the lookup fails, after it, and for a route
  that passes every check.
\<close>

lemma updateRoute_before_lookup:
  "firstViolated lib route = Some e \<Longrightarrow> e \<in> set checkedBeforeLookup \<Longrightarrow>
   updateRoute lib d route actionName actionClb = (Some e, [])"
  by (auto simp: firstViolated_def validationChecks_def checkedBeforeLookup_def updateRoute_def
      split: if_splits)

lemma updateRoute_lookup_failed:
  "firstViolated lib route \<notin> Some ` set checkedBeforeLookup \<Longrightarrow>
   LookupByName d (OutgoingInterface route) = None \<Longrightarrow>
   updateRoute lib d route actionName actionClb =
     (Some (Errorf (''failed to obtain metadata for interface '' @ OutgoingInterface route)),
      [Call_LookupByName (OutgoingInterface route)])"
  by (auto simp: firstViolated_def validationChecks_def checkedBeforeLookup_def updateRoute_def
      split: if_splits)

lemma updateRoute_after_lookup:
  "firstViolated lib route = Some e \<Longrightarrow> e \<notin> set checkedBeforeLookup \<Longrightarrow>
   LookupByName d (OutgoingInterface route) = Some ifMeta \<Longrightarrow>
   updateRoute lib d route actionName actionClb =
     (Some e, [Call_LookupByName (OutgoingInterface route)])"
  by (cases "Scope route")
    (auto simp: firstViolated_def validationChecks_def checkedBeforeLookup_def updateRoute_def
      split: if_splits option.splits sum.splits)

lemma updateRoute_valid:
  "firstViolated lib route = None \<Longrightarrow>
   LookupByName d (OutgoingInterface route) = Some ifMeta \<Longrightarrow>
   take 2 (snd (updateRoute lib d route actionName actionClb)) =
     [Call_LookupByName (OutgoingInterface route), Call_SwitchToNamespace (Namespace ifMeta)] \<and>
   fst (updateRoute lib d route actionName actionClb) \<notin> Some ` set nonRetriableErrs"
  by (cases "Scope route")
    (auto simp: firstViolated_def validationChecks_def updateRoute_def Let_def nonRetriableErrs_def
      split: if_splits option.splits sum.splits)

text \<open>
  Claim C1, as amended. \<open>Add\<close> checks the presence of the outgoing interface, the
  presence of the destination and the link-local constraint, in this order, before any
  call to a collaborator, and returns the error of the first check that fails. It then
  looks the interface up in the interface index and returns an unclassified error when
  the index does not know it. Only when the index knows the interface does it check, in
  this order, the destination network, the gateway address and the scope, returning the
  error of the first check that fails, having made no call but the lookup. A route that
  passes every check goes on to the switch of namespace, and \<open>Add\<close> returns no
  terminal error for it.
\<close>

theorem Add_validation_order:
  "(firstViolated lib route = Some e \<and> e \<in> set checkedBeforeLookup \<longrightarrow>
      Add lib d key route = ((None, Some e), [])) \<and>
   (firstViolated lib route \<notin> Some ` set checkedBeforeLookup \<and>
    LookupByName d (OutgoingInterface route) = None \<longrightarrow>
      Add lib d key route =
        ((None, Some (Errorf (''failed to obtain metadata for interface '' @
            OutgoingInterface route))),
         [Call_LookupByName (OutgoingInterface route)])) \<and>
   (firstViolated lib route = Some e \<and> e \<notin> set checkedBeforeLookup \<and>
    LookupByName d (OutgoingInterface route) = Some ifMeta \<longrightarrow>
      Add lib d key route = ((None, Some e), [Call_LookupByName (OutgoingInterface route)])) \<and>
   (firstViolated lib route = None \<and>
    LookupByName d (OutgoingInterface route) = Some ifMeta \<longrightarrow>
      take 2 (snd (Add lib d key route)) =
        [Call_LookupByName (OutgoingInterface route),
         Call_SwitchToNamespace (Namespace ifMeta)] \<and>
      snd (fst (Add lib d key route)) \<notin> Some ` set nonRetriableErrs)"
proof -
  have add: "Add lib d key route =
      ((None, fst (updateRoute lib d route ''add'' (AddStaticRoute d))),
       snd (updateRoute lib d route ''add'' (AddStaticRoute d)))"
    by (simp add: Add_def split: prod.split)
  show ?thesis
    unfolding add
    using updateRoute_before_lookup [of lib route e d "''add''" "AddStaticRoute d"]
      updateRoute_lookup_failed [of lib route d "''add''" "AddStaticRoute d"]
      updateRoute_after_lookup [of lib route e d ifMeta "''add''" "AddStaticRoute d"]
      updateRoute_valid [of lib route d ifMeta "''add''" "AddStaticRoute d"]
    by simp
qed

theorem Add_validation_order_witness:
  "firstViolated sampleLib (sampleRoute\<lparr>DstNetwork := []\<rparr>) = Some ErrRouteWithoutDestination \<and>
   Add sampleLib sampleCollaborators ''k'' (sampleRoute\<lparr>DstNetwork := []\<rparr>) =
     ((None, Some ErrRouteWithoutDestination), []) \<and>
   firstViolated sampleLib (sampleRoute\<lparr>OutgoingInterface := ''eth9''\<rparr>) = None \<and>
   LookupByName sampleCollaborators ''eth9'' = None \<and>
   Add sampleLib sampleCollaborators ''k'' (sampleRoute\<lparr>OutgoingInterface := ''eth9''\<rparr>) =
     ((None, Some (Errorf ''failed to obtain metadata for interface eth9'')),
      [Call_LookupByName ''eth9'']) \<and>
   firstViolated sampleLib (sampleRoute\<lparr>GwAddr := ''10.0.0.x''\<rparr>) = Some ErrRouteWithInvalidGw \<and>
   Add sampleLib sampleCollaborators ''k'' (sampleRoute\<lparr>GwAddr := ''10.0.0.x''\<rparr>) =
     ((None, Some ErrRouteWithInvalidGw), [Call_LookupByName ''eth0'']) \<and>
   firstViolated sampleLib sampleRoute = None \<and>
   take 2 (snd (Add sampleLib sampleCollaborators ''k'' sampleRoute)) =
     [Call_LookupByName ''eth0'', Call_SwitchToNamespace None]"
proof -
  have a: "firstViolated sampleLib (sampleRoute\<lparr>DstNetwork := []\<rparr>) =
      Some ErrRouteWithoutDestination"
    by (simp add: firstViolated_def validationChecks_def sampleRoute_def)
  have b: "firstViolated sampleLib (sampleRoute\<lparr>OutgoingInterface := ''eth9''\<rparr>) = None"
    by (simp add: firstViolated_def validationChecks_def sampleRoute_def sampleLib_def
        sampleNets_def sampleAddrs_def asciiLower_def lowerChar_def)
  have c: "firstViolated sampleLib (sampleRoute\<lparr>GwAddr := ''10.0.0.x''\<rparr>) =
      Some ErrRouteWithInvalidGw"
    by (simp add: firstViolated_def validationChecks_def sampleRoute_def sampleLib_def
        sampleNets_def sampleAddrs_def asciiLower_def lowerChar_def)
  have d: "firstViolated sampleLib sampleRoute = None"
    by (simp add: firstViolated_def validationChecks_def sampleRoute_def sampleLib_def
        sampleNets_def sampleAddrs_def asciiLower_def lowerChar_def)
  have l9: "LookupByName sampleCollaborators ''eth9'' = None"
    and l0: "LookupByName sampleCollaborators ''eth0'' = Some \<lparr>LinuxIfIndex = 2, Namespace = None\<rparr>"
    by (simp_all add: sampleCollaborators_def)
  have o: "OutgoingInterface sampleRoute = ''eth0''"
    by (simp add: sampleRoute_def)
  show ?thesis
    using a b c d l9 l0 o
      Add_validation_order [where lib = sampleLib and d = sampleCollaborators and key = "''k''"
        and route = "sampleRoute\<lparr>DstNetwork := []\<rparr>" and e = ErrRouteWithoutDestination]
      Add_validation_order [where lib = sampleLib and d = sampleCollaborators and key = "''k''"
        and route = "sampleRoute\<lparr>OutgoingInterface := ''eth9''\<rparr>"]
      Add_validation_order [where lib = sampleLib and d = sampleCollaborators and key = "''k''"
        and route = "sampleRoute\<lparr>GwAddr := ''10.0.0.x''\<rparr>" and e = ErrRouteWithInvalidGw
        and ifMeta = "\<lparr>LinuxIfIndex = 2, Namespace = None\<rparr>"]
      Add_validation_order [where lib = sampleLib and d = sampleCollaborators and key = "''k''"
        and route = sampleRoute and ifMeta = "\<lparr>LinuxIfIndex = 2, Namespace = None\<rparr>"]
    by (simp add: checkedBeforeLookup_def)
qed

text \<open>
  The claim as first stated has every check made before any external resource is
  touched: for an interface unknown to the index and a destination that does not parse,
  the first violated check is the destination's, yet \<open>Add\<close> returns the retriable
  error of the failed lookup, after calling the index.
\<close>

theorem Add_validation_order_counterexample:
  "firstViolated sampleLib
     (sampleRoute\<lparr>OutgoingInterface := ''eth7'', DstNetwork := ''not a network''\<rparr>) =
     Some ErrRouteWithInvalidDst \<and>
   Add sampleLib sampleCollaborators ''k''
     (sampleRoute\<lparr>OutgoingInterface := ''eth7'', DstNetwork := ''not a network''\<rparr>) =
     ((None, Some (Errorf ''failed to obtain metadata for interface eth7'')),
      [Call_LookupByName ''eth7'']) \<and>
   IsRetriableFailure (Errorf ''failed to obtain metadata for interface eth7'')"
  by (simp add: firstViolated_def validationChecks_def sampleRoute_def sampleLib_def
      sampleNets_def asciiLower_def lowerChar_def Add_def updateRoute_def sampleCollaborators_def
      IsRetriableFailure_def nonRetriableErrs_def)

subsection \<open>Equivalence of routes\<close>

lemma IP_Equal_refl: "IP_Equal ip ip"
  by (simp add: IP_Equal_def)






lemma sampleLib_simps:
  "ParseIP sampleLib s = map_of sampleAddrs (asciiLower s)"
  "ParseCIDR sampleLib s = map_of sampleNets (asciiLower s)"
  "ToLower sampleLib = asciiLower"
  "IsIPv6 sampleLib s =
     (case map_of sampleAddrs (asciiLower s) of None \<Rightarrow> False | Some ip \<Rightarrow> To4 ip = None)"
  by (simp_all add: sampleLib_def)




text \<open>
  What \<open>getGwAddr\<close> makes of an absent gateway when \<open>IsIPv6\<close> answers false for the
  destination: the route is equivalent to the one with the gateway \<open>0.0.0.0\<close>, and not
  to the one with the gateway \<open>::\<close>, since Go's parser reads the two all-zeros
  addresses as different addresses.
\<close>

lemma equalAddrs_refl: "equalAddrs lib a a"
  by (cases "ParseIP lib a") (simp_all add: equalAddrs_def IP_Equal_refl)

lemma equalNetworks_refl: "equalNetworks lib n n"
  by (cases "ParseCIDR lib n") (simp_all add: equalNetworks_def IP_Equal_refl)

lemma IsUnspecified_any: "IsUnspecified (IPv4 0 0 0 0)" "IsUnspecified IPv6unspecified"
  by (simp_all add: IsUnspecified_def IP_Equal_def IPv4zero_def)

lemma any_addresses_differ: "\<not> IP_Equal (IPv4 0 0 0 0) IPv6unspecified"
proof -
  have e: "IPv6unspecified = [0, 0, 0, 0, 0, 0, 0, 0, 0, 0, 0, 0, 0, 0, 0, 0]"
    by (simp add: IPv6unspecified_def eval_nat_numeral)
  show ?thesis
    unfolding e by (simp add: IP_Equal_def IPv4_def v4InV6Prefix_def)
qed

lemma no_gateway_on_unrecognised_family:
  assumes "\<not> IsIPv6 lib (DstNetwork r)"
    and "ParseIP lib ''0.0.0.0'' = Some (IPv4 0 0 0 0)"
    and "ParseIP lib ''::'' = Some IPv6unspecified"
  shows "getGwAddr lib (r\<lparr>GwAddr := []\<rparr>) = ''0.0.0.0''"
    and "EquivalentRoutes lib key (r\<lparr>GwAddr := []\<rparr>) (r\<lparr>GwAddr := ''0.0.0.0''\<rparr>)"
    and "\<not> EquivalentRoutes lib key (r\<lparr>GwAddr := []\<rparr>) (r\<lparr>GwAddr := ''::''\<rparr>)"
proof -
  from assms(1) show g: "getGwAddr lib (r\<lparr>GwAddr := []\<rparr>) = ''0.0.0.0''"
    by (simp add: getGwAddr_def ipv4AddrAny_def)
  have g4: "getGwAddr lib (r\<lparr>GwAddr := ''0.0.0.0''\<rparr>) = ''0.0.0.0''"
    and g6: "getGwAddr lib (r\<lparr>GwAddr := ''::''\<rparr>) = ''::''"
    by (simp_all add: getGwAddr_def)
  from g g4 show "EquivalentRoutes lib key (r\<lparr>GwAddr := []\<rparr>) (r\<lparr>GwAddr := ''0.0.0.0''\<rparr>)"
    by (simp add: EquivalentRoutes_def equalNetworks_refl equalAddrs_refl)
  from assms(2,3) have "\<not> equalAddrs lib ''0.0.0.0'' ''::''"
    by (simp add: equalAddrs_def any_addresses_differ)
  with g g6 show "\<not> EquivalentRoutes lib key (r\<lparr>GwAddr := []\<rparr>) (r\<lparr>GwAddr := ''::''\<rparr>)"
    by (simp add: EquivalentRoutes_def)
qed

text \<open>
  Claim C10. An absent gateway is to stand for the all-zeros address of the family of
  the destination network: \<open>0.0.0.0\<close> for IPv4, \<open>::\<close> for IPv6. \<open>getGwAddr\<close> has both
  branches, but it asks \<open>IsIPv6\<close> about the destination network, a string in CIDR
  notation, which the helper does not parse as an address: it answers false, with an
  error that \<open>getGwAddr\<close> drops. So the IPv6 network \<open>2001:db8::/32\<close> gets the IPv4
  default: the route to it with no gateway is not equivalent to the same route with
  the gateway \<open>::\<close>, and is equivalent to the one with the gateway \<open>0.0.0.0\<close>.
\<close>

theorem absent_gateway_of_IPv6_network:
  "ParseCIDR sampleLib ''2001:db8::/32'' =
     Some \<lparr>IP = [32, 1, 13, 184, 0, 0, 0, 0, 0, 0, 0, 0, 0, 0, 0, 0],
           Mask = [255, 255, 255, 255, 0, 0, 0, 0, 0, 0, 0, 0, 0, 0, 0, 0]\<rparr> \<and>
   ParseIP sampleLib ''2001:db8::/32'' = None \<and>
   \<not> IsIPv6 sampleLib ''2001:db8::/32'' \<and>
   getGwAddr sampleLib (sampleRoute\<lparr>DstNetwork := ''2001:db8::/32'', GwAddr := []\<rparr>) =
     ''0.0.0.0'' \<and>
   \<not> EquivalentRoutes sampleLib ''k''
     (sampleRoute\<lparr>DstNetwork := ''2001:db8::/32'', GwAddr := []\<rparr>)
     (sampleRoute\<lparr>DstNetwork := ''2001:db8::/32'', GwAddr := ''::''\<rparr>) \<and>
   EquivalentRoutes sampleLib ''k''
     (sampleRoute\<lparr>DstNetwork := ''2001:db8::/32'', GwAddr := []\<rparr>)
     (sampleRoute\<lparr>DstNetwork := ''2001:db8::/32'', GwAddr := ''0.0.0.0''\<rparr>)"
proof -
  have l: "asciiLower ''2001:db8::/32'' = ''2001:db8::/32''"
    "asciiLower ''0.0.0.0'' = ''0.0.0.0''" "asciiLower ''::'' = ''::''"
    by (simp_all add: asciiLower_def lowerChar_def)
  have c: "ParseCIDR sampleLib ''2001:db8::/32'' =
     Some \<lparr>IP = [32, 1, 13, 184, 0, 0, 0, 0, 0, 0, 0, 0, 0, 0, 0, 0],
           Mask = [255, 255, 255, 255, 0, 0, 0, 0, 0, 0, 0, 0, 0, 0, 0, 0]\<rparr>"
    by (simp add: sampleLib_simps sampleNets_def l)
  have p: "ParseIP sampleLib ''2001:db8::/32'' = None"
    "ParseIP sampleLib ''0.0.0.0'' = Some (IPv4 0 0 0 0)"
    "ParseIP sampleLib ''::'' = Some IPv6unspecified"
    by (simp_all add: sampleLib_simps sampleAddrs_def l)
  have v: "\<not> IsIPv6 sampleLib ''2001:db8::/32''"
    using p(1) by (simp add: sampleLib_simps)
  have v': "\<not> IsIPv6 sampleLib (DstNetwork (sampleRoute\<lparr>DstNetwork := ''2001:db8::/32''\<rparr>))"
    using v by simp
  note n = no_gateway_on_unrecognised_family [OF v' p(2,3)]
  from n(1) have g: "getGwAddr sampleLib
      (sampleRoute\<lparr>DstNetwork := ''2001:db8::/32'', GwAddr := []\<rparr>) = ''0.0.0.0''"
    by simp
  from n(2) [of "''k''"] have e4: "EquivalentRoutes sampleLib ''k''
     (sampleRoute\<lparr>DstNetwork := ''2001:db8::/32'', GwAddr := []\<rparr>)
     (sampleRoute\<lparr>DstNetwork := ''2001:db8::/32'', GwAddr := ''0.0.0.0''\<rparr>)"
    by simp
  from n(3) [of "''k''"] have e6: "\<not> EquivalentRoutes sampleLib ''k''
     (sampleRoute\<lparr>DstNetwork := ''2001:db8::/32'', GwAddr := []\<rparr>)
     (sampleRoute\<lparr>DstNetwork := ''2001:db8::/32'', GwAddr := ''::''\<rparr>)"
    by simp
  show ?thesis
    by (intro conjI c p(1) v g e6 e4)
qed

text \<open>The same run, read for the default alone and for the comparison it decides.\<close>

theorem absent_gateway_of_IPv6_network_witness:
  "getGwAddr sampleLib (sampleRoute\<lparr>DstNetwork := ''2001:db8::/32'', GwAddr := []\<rparr>) =
     ipv4AddrAny \<and>
   \<not> EquivalentRoutes sampleLib ''k''
     (sampleRoute\<lparr>DstNetwork := ''2001:db8::/32'', GwAddr := []\<rparr>)
     (sampleRoute\<lparr>DstNetwork := ''2001:db8::/32'', GwAddr := ipv6AddrAny\<rparr>)"
proof -
  note t = absent_gateway_of_IPv6_network
  from t have "getGwAddr sampleLib
      (sampleRoute\<lparr>DstNetwork := ''2001:db8::/32'', GwAddr := []\<rparr>) = ''0.0.0.0''"
    by (elim conjE)
  moreover from t have "\<not> EquivalentRoutes sampleLib ''k''
     (sampleRoute\<lparr>DstNetwork := ''2001:db8::/32'', GwAddr := []\<rparr>)
     (sampleRoute\<lparr>DstNetwork := ''2001:db8::/32'', GwAddr := ''::''\<rparr>)"
    by (elim conjE)
  ultimately show ?thesis
    by (simp add: ipv4AddrAny_def ipv6AddrAny_def)
qed

subsection \<open>The punt-to-host descriptor\<close>

text \<open>
  Claim C9. For a punt with an empty socket path, \<open>Delete\<close> returns nil and calls
  nothing: the deletion that VPP does not support is a success without effect. For a
  punt with a socket path it makes the one call that deregisters the socket and returns
  that call's error.
\<close>

theorem PuntToHost_Delete_socket_only:
  "(SocketPath punt = [] \<longrightarrow> PuntToHost_Delete d key punt metadata = (None, [])) \<and>
   (SocketPath punt \<noteq> [] \<longrightarrow>
      PuntToHost_Delete d key punt metadata =
        (DeregisterPuntSocket d punt, [Call_DeregisterPuntSocket punt]))"
  by (simp add: PuntToHost_Delete_def)

theorem PuntToHost_Delete_socket_only_witness:
  "SocketPath samplePunt = [] \<and>
   PuntToHost_Delete samplePuntDescriptor ''k'' samplePunt None = (None, []) \<and>
   SocketPath (samplePunt\<lparr>SocketPath := ''/run/punt.sock''\<rparr>) \<noteq> [] \<and>
   PuntToHost_Delete samplePuntDescriptor ''k'' (samplePunt\<lparr>SocketPath := ''/run/punt.sock''\<rparr>)
     None =
     (Some (OtherError ''socket not registered''),
      [Call_DeregisterPuntSocket (samplePunt\<lparr>SocketPath := ''/run/punt.sock''\<rparr>)])"
proof -
  have e: "SocketPath samplePunt = []"
    by (simp add: samplePunt_def)
  have n: "SocketPath (samplePunt\<lparr>SocketPath := ''/run/punt.sock''\<rparr>) \<noteq> []"
    by simp
  have h: "DeregisterPuntSocket samplePuntDescriptor
      (samplePunt\<lparr>SocketPath := ''/run/punt.sock''\<rparr>) =
      Some (OtherError ''socket not registered'')"
    by (simp add: samplePuntDescriptor_def)
  from e n h
    PuntToHost_Delete_socket_only [where d = samplePuntDescriptor and key = "''k''"
      and punt = samplePunt and metadata = None]
    PuntToHost_Delete_socket_only [where d = samplePuntDescriptor and key = "''k''"
      and punt = "samplePunt\<lparr>SocketPath := ''/run/punt.sock''\<rparr>" and metadata = None]
  show ?thesis by simp
qed

text \<open>
  Claim C8. \<open>Dump\<close> of the punt-to-host descriptor is to return every punt-to-host
  entry that exists in VPP, as its own comment says (``returns all configured VPP punt
  to host entries''). Its body is a stub, marked as to do, that returns the empty list
  whatever exists: with one punt in VPP, \<open>Dump\<close> returns no entry, and what it returns
  is not the set of existing punts.
\<close>

theorem PuntToHost_Dump_misses_existing_punt:
  "vppPunts samplePuntDescriptor = [samplePunt] \<and>
   PuntToHost_Dump samplePuntDescriptor [] = (([], None), []) \<and>
   set (map Punt_Value (fst (fst (PuntToHost_Dump samplePuntDescriptor [])))) \<noteq>
     set (vppPunts samplePuntDescriptor)"
  by (simp add: PuntToHost_Dump_def samplePuntDescriptor_def)

subsection \<open>The workers of Dump\<close>

text \<open>
  The loop header of \<open>dumpRoutes\<close> with a positive stride ends, and yields each index
  from \<open>i\<close> up that is congruent to \<open>i\<close> modulo the stride, once.
\<close>

lemma stride_step:
  assumes "0 < (cnt::nat)" and "i < len"
  shows "{k. i \<le> k \<and> k < len \<and> k mod cnt = i mod cnt} =
         insert i {k. i + cnt \<le> k \<and> k < len \<and> k mod cnt = (i + cnt) mod cnt}"
proof -
  have "i + cnt \<le> k" if "i \<le> k" "k \<noteq> i" "k mod cnt = i mod cnt" for k
  proof -
    from that have "cnt dvd k - i"
      by (simp add: mod_eq_dvd_iff_nat)
    moreover from that have "0 < k - i"
      by simp
    ultimately have "cnt \<le> k - i"
      by (rule dvd_imp_le)
    with that show ?thesis
      by simp
  qed
  with assms show ?thesis
    by auto
qed

lemma strideLoop_Some:
  assumes "0 < cnt"
  shows "\<exists>xs. strideLoop i cnt len acc = Some (acc @ xs) \<and> distinct xs \<and>
           set xs = {k. i \<le> k \<and> k < len \<and> k mod cnt = i mod cnt}"
proof (induction "len - i" arbitrary: i acc rule: less_induct)
  case less
  show ?case
  proof (cases "i < len")
    case True
    with assms have "len - (i + cnt) < len - i"
      by simp
    from less [OF this, of "acc @ [i]"] obtain xs where
      xs: "strideLoop (i + cnt) cnt len (acc @ [i]) = Some ((acc @ [i]) @ xs)" "distinct xs"
        "set xs = {k. i + cnt \<le> k \<and> k < len \<and> k mod cnt = (i + cnt) mod cnt}"
      by blast
    from True xs(1) have "strideLoop i cnt len acc = Some (acc @ i # xs)"
      by (subst strideLoop.simps) simp
    moreover from xs(2,3) assms have "distinct (i # xs)"
      by simp
    moreover from xs(3) have "set (i # xs) = {k. i \<le> k \<and> k < len \<and> k mod cnt = i mod cnt}"
      by (simp add: stride_step [OF assms True])
    ultimately show ?thesis
      by blast
  next
    case False
    then have "strideLoop i cnt len acc = Some (acc @ [])"
      by (subst strideLoop.simps) simp
    moreover from False have "{k. i \<le> k \<and> k < len \<and> k mod cnt = i mod cnt} = set []"
      by auto
    ultimately show ?thesis
      by (metis distinct.simps(1))
  qed
qed

lemma workerIndices_Some:
  assumes "0 < N" and "i < N"
  shows "\<exists>xs. workerIndices i N L = Some xs \<and> distinct xs \<and>
           set xs = {k. k < L \<and> k mod N = i}"
proof -
  from strideLoop_Some [OF assms(1), of i L "[]"] obtain xs where
    xs: "strideLoop i N L [] = Some xs" "distinct xs"
      "set xs = {k. i \<le> k \<and> k < L \<and> k mod N = i mod N}"
    by auto
  have "i \<le> k" if "k mod N = i" for k
    using that mod_less_eq_dividend [of k N] by simp
  with assms(2) have "{k. i \<le> k \<and> k < L \<and> k mod N = i mod N} = {k. k < L \<and> k mod N = i}"
    by auto
  with xs show ?thesis
    by (simp add: workerIndices_def)
qed

text \<open>
  With a positive stride the worker's loop ends too. It looks up the interfaces at the
  indices of its slice, in order, through the first pass that breaks, and it reports no
  error exactly when no pass of its slice breaks.
\<close>

lemma lookedUp_append: "lookedUp (xs @ ys) = lookedUp xs @ lookedUp ys"
  by (induction xs rule: lookedUp.induct) simp_all

lemma dumpInterface_calls:
  "\<exists>cs. snd (snd (dumpInterface lib d ifName (dump, calls))) = calls @ cs \<and>
        lookedUp cs = [ifName]"
  by (simp add: dumpInterface_def Let_def split: option.splits sum.splits prod.splits)

lemma dumpInterface_err:
  "err dump = None \<Longrightarrow>
   (err (fst (snd (dumpInterface lib d ifName (dump, calls)))) = None) =
     fst (dumpInterface lib d ifName (dump, calls))"
  by (simp add: dumpInterface_def Let_def split: option.splits sum.splits prod.splits)

lemma dumpInterface_breaks:
  "fst (dumpInterface lib d ifName st) = (\<not> passBreaks d ifName)"
  by (simp add: dumpInterface_def passBreaks_def Let_def case_prod_beta
      split: option.splits sum.splits prod.splits)

lemma dumpRoutesLoop_visits:
  assumes "0 < cnt"
  shows "err (fst st) = None \<Longrightarrow>
    \<exists>dump cs xs. dumpRoutesLoop lib d ifs i cnt st = Some (dump, snd st @ cs) \<and>
      strideLoop i cnt (length ifs) acc = Some (acc @ xs) \<and>
      lookedUp cs =
        map ((!) ifs) (take (Suc (length (takeWhile (\<lambda>k. \<not> passBreaks d (ifs ! k)) xs))) xs) \<and>
      (err dump = None) = (\<forall>k\<in>set xs. \<not> passBreaks d (ifs ! k))"
proof (induction "length ifs - i" arbitrary: i st acc rule: less_induct)
  case less
  show ?case
  proof (cases "i < length ifs")
    case False
    then have "dumpRoutesLoop lib d ifs i cnt st = Some (fst st, snd st @ [])"
      by (subst dumpRoutesLoop.simps) simp
    moreover from False have "strideLoop i cnt (length ifs) acc = Some (acc @ [])"
      by (subst strideLoop.simps) simp
    ultimately show ?thesis
      using less.prems by (intro exI [of _ "fst st"] exI [of _ "[]"]) simp
  next
    case True
    define r where "r = dumpInterface lib d (ifs ! i) st"
    from dumpInterface_calls [of lib d "ifs ! i" "fst st" "snd st"] obtain cs0 where
      cs0: "snd (snd r) = snd st @ cs0" "lookedUp cs0 = [ifs ! i]"
      by (auto simp: r_def)
    from dumpInterface_err [of "fst st" lib d "ifs ! i" "snd st"] less.prems
    have e: "(err (fst (snd r)) = None) = fst r"
      by (simp add: r_def)
    have b: "fst r = (\<not> passBreaks d (ifs ! i))"
      by (simp add: r_def dumpInterface_breaks)
    from assms True have dec: "length ifs - (i + cnt) < length ifs - i"
      by simp
    from True have stride: "strideLoop i cnt (length ifs) acc =
        strideLoop (i + cnt) cnt (length ifs) (acc @ [i])"
      by (subst strideLoop.simps) simp
    show ?thesis
    proof (cases "fst r")
      case True
      with e have "err (fst (snd r)) = None"
        by simp
      from less.hyps [OF dec this, of "acc @ [i]"] obtain dump cs xs where
        ih: "dumpRoutesLoop lib d ifs (i + cnt) cnt (snd r) = Some (dump, snd (snd r) @ cs)"
          "strideLoop (i + cnt) cnt (length ifs) (acc @ [i]) = Some ((acc @ [i]) @ xs)"
          "lookedUp cs =
             map ((!) ifs) (take (Suc (length (takeWhile (\<lambda>k. \<not> passBreaks d (ifs ! k)) xs))) xs)"
          "(err dump = None) = (\<forall>k\<in>set xs. \<not> passBreaks d (ifs ! k))"
        by (elim exE conjE)
      from \<open>i < length ifs\<close> True ih(1) cs0(1)
      have "dumpRoutesLoop lib d ifs i cnt st = Some (dump, snd st @ (cs0 @ cs))"
        by (subst dumpRoutesLoop.simps) (simp add: r_def)
      moreover from stride ih(2) have "strideLoop i cnt (length ifs) acc = Some (acc @ (i # xs))"
        by simp
      moreover from cs0(2) ih(3) True b
      have "lookedUp (cs0 @ cs) =
          map ((!) ifs)
            (take (Suc (length (takeWhile (\<lambda>k. \<not> passBreaks d (ifs ! k)) (i # xs)))) (i # xs))"
        by (simp add: lookedUp_append)
      moreover from ih(4) True b
      have "(err dump = None) = (\<forall>k\<in>set (i # xs). \<not> passBreaks d (ifs ! k))"
        by simp
      ultimately show ?thesis
        by (intro exI [of _ dump] exI [of _ "cs0 @ cs"] exI [of _ "i # xs"]) simp
    next
      case False
      from strideLoop_Some [OF assms, of "i + cnt" "length ifs" "acc @ [i]"] obtain xs where
        "strideLoop (i + cnt) cnt (length ifs) (acc @ [i]) = Some ((acc @ [i]) @ xs)"
        by blast
      with stride have "strideLoop i cnt (length ifs) acc = Some (acc @ (i # xs))"
        by simp
      moreover from \<open>i < length ifs\<close> False cs0(1)
      have "dumpRoutesLoop lib d ifs i cnt st = Some (fst (snd r), snd st @ cs0)"
        by (subst dumpRoutesLoop.simps) (simp add: r_def prod_eq_iff)
      moreover from cs0(2) False b
      have "lookedUp cs0 =
          map ((!) ifs)
            (take (Suc (length (takeWhile (\<lambda>k. \<not> passBreaks d (ifs ! k)) (i # xs)))) (i # xs))"
        by simp
      moreover from e False b
      have "(err (fst (snd r)) = None) = (\<forall>k\<in>set (i # xs). \<not> passBreaks d (ifs ! k))"
        by auto
      ultimately show ?thesis
        by (intro exI [of _ "fst (snd r)"] exI [of _ cs0] exI [of _ "i # xs"]) simp
    qed
  qed
qed

lemma dumpRoutes_visits:
  assumes "0 < N"
  shows "\<exists>dump cs xs. dumpRoutes lib d ifs i N = Some (dump, cs) \<and>
      workerIndices i N (length ifs) = Some xs \<and>
      lookedUp cs =
        map ((!) ifs) (take (Suc (length (takeWhile (\<lambda>k. \<not> passBreaks d (ifs ! k)) xs))) xs) \<and>
      (err dump = None) = (\<forall>k\<in>set xs. \<not> passBreaks d (ifs ! k))"
  using dumpRoutesLoop_visits [OF assms, of "(\<lparr>routes = [], err = None\<rparr>, [])" lib d ifs i "[]"]
  by (simp add: dumpRoutes_def workerIndices_def)

text \<open>
  Claim C6. For every number of workers \<open>N \<ge> 1\<close> and every length \<open>L\<close> of the
  list of units, the slices of the workers (worker \<open>i\<close> runs through the indices
  \<open>i, i + N, i + 2N, \<dots>\<close> below \<open>L\<close>, each once) are pairwise disjoint and their union
  is the set of all indices \<open>0, \<dots>, L - 1\<close>. Worker \<open>i\<close> of \<open>Dump\<close> returns, having
  looked up the interfaces of its slice, in order, all of them unless a pass breaks
  with an error, and then those through that pass.
\<close>

theorem stride_slices_partition:
  assumes "1 \<le> N" and "length interfaces = L"
  shows "\<exists>slices. length slices = N \<and>
           (\<forall>i<N. workerIndices i N L = Some (slices ! i) \<and> distinct (slices ! i) \<and>
                   set (slices ! i) = {k. k < L \<and> k mod N = i}) \<and>
           (\<forall>i<N. \<forall>j<N. i \<noteq> j \<longrightarrow> set (slices ! i) \<inter> set (slices ! j) = {}) \<and>
           (\<Union>i<N. set (slices ! i)) = {0..<L} \<and>
           (\<forall>i<N. \<exists>dump cs. dumpRoutes lib d interfaces i N = Some (dump, cs) \<and>
              lookedUp cs =
                map ((!) interfaces)
                  (take (Suc (length (takeWhile (\<lambda>k. \<not> passBreaks d (interfaces ! k))
                     (slices ! i)))) (slices ! i)) \<and>
              (err dump = None) = (\<forall>k\<in>set (slices ! i). \<not> passBreaks d (interfaces ! k)))"
proof -
  from assms have N: "0 < N"
    by simp
  define slices where "slices = map (\<lambda>i. the (workerIndices i N L)) [0..<N]"
  have len: "length slices = N"
    by (simp add: slices_def)
  have each: "workerIndices i N L = Some (slices ! i) \<and> distinct (slices ! i) \<and>
      set (slices ! i) = {k. k < L \<and> k mod N = i}" if "i < N" for i
  proof -
    from workerIndices_Some [OF N that, of L] obtain xs where
      xs: "workerIndices i N L = Some xs" "distinct xs" "set xs = {k. k < L \<and> k mod N = i}"
      by blast
    from that have "slices ! i = the (workerIndices i N L)"
      by (simp add: slices_def)
    with xs show ?thesis
      by simp
  qed
  have disj: "set (slices ! i) \<inter> set (slices ! j) = {}" if "i < N" "j < N" "i \<noteq> j" for i j
  proof -
    from each [OF that(1)] have "set (slices ! i) = {k. k < L \<and> k mod N = i}"
      by simp
    moreover from each [OF that(2)] have "set (slices ! j) = {k. k < L \<and> k mod N = j}"
      by simp
    ultimately show ?thesis
      using that(3) by auto
  qed
  have visits: "\<exists>dump cs. dumpRoutes lib d interfaces i N = Some (dump, cs) \<and>
      lookedUp cs =
        map ((!) interfaces)
          (take (Suc (length (takeWhile (\<lambda>k. \<not> passBreaks d (interfaces ! k))
             (slices ! i)))) (slices ! i)) \<and>
      (err dump = None) = (\<forall>k\<in>set (slices ! i). \<not> passBreaks d (interfaces ! k))"
    if "i < N" for i
  proof -
    from dumpRoutes_visits [OF N, of lib d interfaces i] obtain dump cs xs where
      v: "dumpRoutes lib d interfaces i N = Some (dump, cs)"
        "workerIndices i N (length interfaces) = Some xs"
        "lookedUp cs =
           map ((!) interfaces)
             (take (Suc (length (takeWhile (\<lambda>k. \<not> passBreaks d (interfaces ! k)) xs))) xs)"
        "(err dump = None) = (\<forall>k\<in>set xs. \<not> passBreaks d (interfaces ! k))"
      by (elim exE conjE)
    from v(2) each [OF that] assms(2) have "xs = slices ! i"
      by simp
    with v(1,3,4) show ?thesis
      by (intro exI [of _ dump] exI [of _ cs]) simp
  qed
  have "(\<Union>i<N. set (slices ! i)) = {0..<L}"
  proof (intro equalityI subsetI)
    fix k assume "k \<in> (\<Union>i<N. set (slices ! i))"
    then obtain i where "i < N" "k \<in> set (slices ! i)"
      by blast
    with each [of i] show "k \<in> {0..<L}"
      by simp
  next
    fix k assume "k \<in> {0..<L}"
    moreover from N have "k mod N < N"
      by simp
    ultimately have "k \<in> set (slices ! (k mod N))"
      using each [of "k mod N"] by simp
    with \<open>k mod N < N\<close> show "k \<in> (\<Union>i<N. set (slices ! i))"
      by blast
  qed
  with len each disj visits show ?thesis
    by (intro exI [of _ slices]) simp
qed

theorem stride_slices_partition_witness:
  "(1::nat) \<le> 2 \<and> length [''eth0'', ''eth1'', ''eth0''] = 3 \<and>
   workerIndices 0 2 3 = Some [0, 2] \<and> workerIndices 1 2 3 = Some [1] \<and>
   set [0, 2 :: nat] \<inter> set [1] = {} \<and>
   set [0, 2 :: nat] \<union> set [1] = {0..<3} \<and>
   map_option (\<lambda>r. (err (fst r), lookedUp (snd r)))
     (dumpRoutes sampleLib sampleCollaborators [''eth0'', ''eth1'', ''eth0''] 0 2) =
     Some (None, [''eth0'', ''eth0'']) \<and>
   map_option (\<lambda>r. (err (fst r) = None, lookedUp (snd r)))
     (dumpRoutes sampleLib sampleCollaborators [''eth0'', ''eth1'', ''eth0''] 1 2) =
     Some (False, [''eth1''])"
proof -
  let ?ifs = "[''eth0'', ''eth1'', ''eth0'']"
  have w0: "workerIndices 0 2 3 = Some [0, 2]" and w1: "workerIndices 1 2 3 = Some [1]"
    by (simp_all add: workerIndices_def strideLoop.simps)
  have n: "(1::nat) \<le> 2" and l: "length ?ifs = 3"
    by simp_all
  have c: "LookupByName sampleCollaborators ''eth0'' = Some \<lparr>LinuxIfIndex = 2, Namespace = None\<rparr>"
    "LookupByName sampleCollaborators ''eth1'' = Some \<lparr>LinuxIfIndex = 3, Namespace = None\<rparr>"
    "SwitchToNamespace sampleCollaborators None = None"
    "GetStaticRoutes sampleCollaborators None 2 = Inr ([sampleDefaultRoute], [])"
    "GetStaticRoutes sampleCollaborators None 3 = Inl (OtherError ''no such device'')"
    by (simp_all add: sampleCollaborators_def)
  have b: "\<not> passBreaks sampleCollaborators ''eth0''" "passBreaks sampleCollaborators ''eth1''"
    by (simp_all add: passBreaks_def c)
  from stride_slices_partition [OF n l, of sampleLib sampleCollaborators]
  obtain slices where
    s: "\<forall>i<2. workerIndices i 2 3 = Some (slices ! i) \<and> distinct (slices ! i) \<and>
          set (slices ! i) = {k. k < 3 \<and> k mod 2 = i}"
      "\<forall>i<2. \<forall>j<2. i \<noteq> j \<longrightarrow> set (slices ! i) \<inter> set (slices ! j) = {}"
      "(\<Union>i<2. set (slices ! i)) = {0..<3}"
      "\<forall>i<2. \<exists>dump cs. dumpRoutes sampleLib sampleCollaborators ?ifs i 2 = Some (dump, cs) \<and>
          lookedUp cs =
            map ((!) ?ifs)
              (take (Suc (length (takeWhile (\<lambda>k. \<not> passBreaks sampleCollaborators (?ifs ! k))
                 (slices ! i)))) (slices ! i)) \<and>
          (err dump = None) = (\<forall>k\<in>set (slices ! i). \<not> passBreaks sampleCollaborators (?ifs ! k))"
    by (elim exE conjE)
  from s(1) have "workerIndices 0 2 3 = Some (slices ! 0)" "workerIndices 1 2 3 = Some (slices ! 1)"
    by simp_all
  with w0 w1 have e: "slices ! 0 = [0, 2]" "slices ! 1 = [1]"
    by simp_all
  from s(2) have dj: "set (slices ! 0) \<inter> set (slices ! 1) = {}"
    by simp
  have "{..<2::nat} = {0, 1}"
    by auto
  with s(3) have u: "set (slices ! 0) \<union> set (slices ! 1) = {0..<3}"
    by simp
  from s(4) obtain dump0 cs0 where
    d0: "dumpRoutes sampleLib sampleCollaborators ?ifs 0 2 = Some (dump0, cs0)"
      "lookedUp cs0 =
         map ((!) ?ifs)
           (take (Suc (length (takeWhile (\<lambda>k. \<not> passBreaks sampleCollaborators (?ifs ! k))
              (slices ! 0)))) (slices ! 0))"
      "(err dump0 = None) = (\<forall>k\<in>set (slices ! 0). \<not> passBreaks sampleCollaborators (?ifs ! k))"
    by (metis zero_less_numeral)
  from s(4) obtain dump1 cs1 where
    d1: "dumpRoutes sampleLib sampleCollaborators ?ifs 1 2 = Some (dump1, cs1)"
      "lookedUp cs1 =
         map ((!) ?ifs)
           (take (Suc (length (takeWhile (\<lambda>k. \<not> passBreaks sampleCollaborators (?ifs ! k))
              (slices ! 1)))) (slices ! 1))"
      "(err dump1 = None) = (\<forall>k\<in>set (slices ! 1). \<not> passBreaks sampleCollaborators (?ifs ! k))"
    by (metis one_less_numeral_iff semiring_norm(76))
  from d0 have r0: "map_option (\<lambda>r. (err (fst r), lookedUp (snd r)))
     (dumpRoutes sampleLib sampleCollaborators ?ifs 0 2) = Some (None, [''eth0'', ''eth0''])"
    unfolding e by (simp add: b)
  from d1 have r1: "map_option (\<lambda>r. (err (fst r) = None, lookedUp (snd r)))
     (dumpRoutes sampleLib sampleCollaborators ?ifs 1 2) = Some (False, [''eth1''])"
    unfolding e by (simp add: b)
  show ?thesis
    by (intro conjI n l w0 w1 dj [unfolded e] u [unfolded e] r0 r1)
qed

subsection \<open>The results that Dump collects\<close>

lemma Dump_collectLoop:
  "0 \<le> goRoutinesCnt lib d (ListAllInterfaces d) \<Longrightarrow>
   Dump lib d received correlate = map_option Inr (collectLoop (sentByWorker lib d) received [])"
proof -
  have "sentByWorker lib d =
      (\<lambda>idx. map_option fst
         (dumpRoutes lib d (ListAllInterfaces d) idx
            (nat (goRoutinesCnt lib d (ListAllInterfaces d)))))"
    by (intro ext) (simp add: sentByWorker_def)
  moreover assume "0 \<le> goRoutinesCnt lib d (ListAllInterfaces d)"
  ultimately show ?thesis
    by (simp add: Dump_def Let_def)
qed

lemma Dump_negative_count:
  "goRoutinesCnt lib d (ListAllInterfaces d) < 0 \<Longrightarrow>
   Dump lib d received correlate = Some (Inl MakechanSizeOutOfRange)"
  by (simp add: Dump_def Let_def)

lemma collectLoop_first_error:
  "map worker received = map Some ws \<Longrightarrow>
   collectLoop worker received dump =
     Some (dump @ concat (map routes (takeWhile (\<lambda>w. err w = None) ws)),
           case dropWhile (\<lambda>w. err w = None) ws of [] \<Rightarrow> None | w # rest \<Rightarrow> err w)"
proof (induction received arbitrary: ws dump)
  case Nil
  then show ?case by simp
next
  case (Cons i received)
  then obtain w ws' where ws: "ws = w # ws'" "worker i = Some w" "map worker received = map Some ws'"
    by (cases ws) auto
  show ?case
  proof (cases "err w")
    case None
    with ws Cons.IH [OF ws(3), of "dump @ routes w"] show ?thesis by simp
  next
    case (Some e)
    with ws show ?thesis by simp
  qed
qed

lemma sentByWorker_Some:
  assumes "idx < nat (goRoutinesCnt lib d (ListAllInterfaces d))"
  shows "\<exists>w. sentByWorker lib d idx = Some w"
proof -
  from assms have "0 < nat (goRoutinesCnt lib d (ListAllInterfaces d))"
    by simp
  from dumpRoutes_visits [OF this, of lib d "ListAllInterfaces d" idx]
  show ?thesis
    by (auto simp: sentByWorker_def)
qed

lemma all_sent:
  "set received \<subseteq> {..<nat (goRoutinesCnt lib d (ListAllInterfaces d))} \<Longrightarrow>
   \<exists>ws. map (sentByWorker lib d) received = map Some ws"
proof (induction received)
  case Nil
  then show ?case by simp
next
  case (Cons i received)
  then obtain ws where "map (sentByWorker lib d) received = map Some ws"
    by auto
  moreover from Cons.prems sentByWorker_Some [of i lib d] obtain w where
    "sentByWorker lib d i = Some w"
    by auto
  ultimately have "map (sentByWorker lib d) (i # received) = map Some (w # ws)"
    by simp
  then show ?case by blast
qed

text \<open>
  Claim C7, as amended. For a number of workers that is not negative, every worker
  sends its value and \<open>Dump\<close> returns: it receives the values in their order of
  arrival and concatenates the routes they carry. When no value carries an error it has
  received from every worker and returns all their routes with nil. When some value
  carries one, it returns at the first such value received, with that error and the
  routes of the values received before it.
\<close>

theorem Dump_returns_at_first_error:
  assumes "0 \<le> goRoutinesCnt lib d (ListAllInterfaces d) \<and> distinct received \<and>
           set received = {..<nat (goRoutinesCnt lib d (ListAllInterfaces d))}"
  shows "\<exists>ws. map (sentByWorker lib d) received = map Some ws \<and>
           Dump lib d received correlate =
             Some (Inr (concat (map routes (takeWhile (\<lambda>w. err w = None) ws)),
                        case dropWhile (\<lambda>w. err w = None) ws of
                          [] \<Rightarrow> None
                        | w # rest \<Rightarrow> err w))"
proof -
  from assms all_sent [of received lib d] obtain ws where
    ws: "map (sentByWorker lib d) received = map Some ws"
    by auto
  from collectLoop_first_error [OF this, of "[]"] ws assms show ?thesis
    by (intro exI [of _ ws]) (simp add: Dump_collectLoop)
qed

text \<open>The two sets of collaborators of the examples, run by hand.\<close>

lemma sdiv_2_3: "(2::int) sdiv 3 = 0"
  by (simp add: signed_divide_int_def)

lemma sampleCollaborators_fields: "ListAllInterfaces sampleCollaborators = [''eth0'', ''eth1'']" "dumpGoRoutinesCnt sampleCollaborators = 10"
  "minWorkForGoRoutine sampleLib = 3"
  by (simp_all add: sampleCollaborators_def sampleLib_def)

lemma cnt_sample: "goRoutinesCnt sampleLib sampleCollaborators (ListAllInterfaces sampleCollaborators) = 1"
  by (simp add: goRoutinesCnt_def sdiv_2_3 sampleCollaborators_fields)


lemma sampleCollaborators_calls: "LookupByName sampleCollaborators ''eth0'' = Some \<lparr>LinuxIfIndex = 2, Namespace = None\<rparr>"
  "LookupByName sampleCollaborators ''eth1'' = Some \<lparr>LinuxIfIndex = 3, Namespace = None\<rparr>"
  "SwitchToNamespace sampleCollaborators ns = None"
  "GetStaticRoutes sampleCollaborators ns 2 = Inr ([sampleDefaultRoute], [])"
  "GetStaticRoutes sampleCollaborators ns 3 = Inl (OtherError ''no such device'')"
  by (simp_all add: sampleCollaborators_def)

lemma sampleLib_StaticRouteKey: "StaticRouteKey sampleLib dstNet ifName = ''route/'' @ dstNet @ ''/'' @ ifName"
  by (simp add: sampleLib_def)

lemma dumpInterface_sample_eth0: "dumpInterface sampleLib sampleCollaborators ''eth0'' (\<lparr>routes = [], err = None\<rparr>, []) =
   (True, \<lparr>routes =
             [\<lparr>Key = ''route/0.0.0.0/0/eth0'',
               Value = \<lparr>OutgoingInterface = ''eth0'', Scope = StaticRoute_GLOBAL,
                        DstNetwork = ''0.0.0.0/0'', GwAddr = [], Metric = 0\<rparr>,
               Metadata = None, Origin = UnknownOrigin\<rparr>], err = None\<rparr>,
    [Call_LookupByName ''eth0'', Call_SwitchToNamespace None, Call_GetStaticRoutes 2, Call_revertNs])"
  by (simp add: dumpInterface_def sampleCollaborators_calls sampleLib_StaticRouteKey sampleDefaultRoute_def ipv4AddrAny_def)

lemma dumpInterface_sample_eth1: "dumpInterface sampleLib sampleCollaborators ''eth1'' st =
   (False, (fst st)\<lparr>err := Some (OtherError ''no such device'')\<rparr>,
    snd st @ [Call_LookupByName ''eth1'', Call_SwitchToNamespace None, Call_GetStaticRoutes 3, Call_revertNs])"
  by (simp add: dumpInterface_def sampleCollaborators_calls Let_def case_prod_beta)


lemma sent_sample:
  "sentByWorker sampleLib sampleCollaborators 0 =
     Some \<lparr>routes =
             [\<lparr>Key = ''route/0.0.0.0/0/eth0'',
               Value = \<lparr>OutgoingInterface = ''eth0'', Scope = StaticRoute_GLOBAL,
                        DstNetwork = ''0.0.0.0/0'', GwAddr = [], Metric = 0\<rparr>,
               Metadata = None, Origin = UnknownOrigin\<rparr>],
           err = Some (OtherError ''no such device'')\<rparr>"
proof -
  let ?ifs = "[''eth0'', ''eth1'']"
  let ?kv = "\<lparr>Key = ''route/0.0.0.0/0/eth0'',
               Value = \<lparr>OutgoingInterface = ''eth0'', Scope = StaticRoute_GLOBAL,
                        DstNetwork = ''0.0.0.0/0'', GwAddr = [], Metric = 0\<rparr>,
               Metadata = None, Origin = UnknownOrigin\<rparr>"
  have l1: "dumpRoutesLoop sampleLib sampleCollaborators ?ifs 1 1 st =
      Some (snd (dumpInterface sampleLib sampleCollaborators ''eth1'' st))" for st
    by (subst dumpRoutesLoop.simps) (simp add: dumpInterface_sample_eth1)
  have "dumpRoutesLoop sampleLib sampleCollaborators ?ifs 0 1 (\<lparr>routes = [], err = None\<rparr>, []) =
      dumpRoutesLoop sampleLib sampleCollaborators ?ifs 1 1
        (snd (dumpInterface sampleLib sampleCollaborators ''eth0'' (\<lparr>routes = [], err = None\<rparr>, [])))"
    by (subst dumpRoutesLoop.simps) (simp add: dumpInterface_sample_eth0)
  then have l0: "dumpRoutesLoop sampleLib sampleCollaborators ?ifs 0 1
      (\<lparr>routes = [], err = None\<rparr>, []) =
      Some (\<lparr>routes = [?kv], err = Some (OtherError ''no such device'')\<rparr>,
            [Call_LookupByName ''eth0'', Call_SwitchToNamespace None, Call_GetStaticRoutes 2,
             Call_revertNs, Call_LookupByName ''eth1'', Call_SwitchToNamespace None,
             Call_GetStaticRoutes 3, Call_revertNs])"
    by (simp only: l1 dumpInterface_sample_eth0 dumpInterface_sample_eth1) simp
  have c: "nat (goRoutinesCnt sampleLib sampleCollaborators ?ifs) = 1"
    using cnt_sample by (simp add: sampleCollaborators_fields)
  show ?thesis
    unfolding sentByWorker_def dumpRoutes_def sampleCollaborators_fields c l0 by simp
qed

lemma sampleHealthy_fields: "ListAllInterfaces sampleHealthy = [''eth0'', ''eth1'']" "dumpGoRoutinesCnt sampleHealthy = 10"
  "LookupByName sampleHealthy ''eth0'' = Some \<lparr>LinuxIfIndex = 2, Namespace = None\<rparr>"
  "LookupByName sampleHealthy ''eth1'' = Some \<lparr>LinuxIfIndex = 3, Namespace = None\<rparr>"
  "SwitchToNamespace sampleHealthy ns = None"
  "GetStaticRoutes sampleHealthy ns idx = Inr ([sampleDefaultRoute], [])"
  by (simp_all add: sampleHealthy_def sampleCollaborators_fields sampleCollaborators_calls)

lemma dumpInterface_healthy: "dumpInterface sampleLib sampleHealthy ifName st =
   (case LookupByName sampleHealthy ifName of
      None \<Rightarrow> (False, (fst st)\<lparr>err := Some (Errorf (''failed to obtain metadata for interface '' @ ifName))\<rparr>,
                snd st @ [Call_LookupByName ifName])
    | Some m \<Rightarrow>
       (True,
        (fst st)\<lparr>routes := routes (fst st) @
           [\<lparr>Key = ''route/0.0.0.0/0/'' @ ifName,
             Value = \<lparr>OutgoingInterface = ifName, Scope = StaticRoute_GLOBAL,
                      DstNetwork = ''0.0.0.0/0'', GwAddr = [], Metric = 0\<rparr>,
             Metadata = None, Origin = UnknownOrigin\<rparr>]\<rparr>,
        snd st @ [Call_LookupByName ifName, Call_SwitchToNamespace (Namespace m),
          Call_GetStaticRoutes (LinuxIfIndex m), Call_revertNs]))"
  by (simp add: dumpInterface_def sampleHealthy_fields sampleLib_StaticRouteKey Let_def case_prod_beta sampleDefaultRoute_def ipv4AddrAny_def
      split: option.splits)


lemma sent_healthy:
  "sentByWorker sampleLib sampleHealthy 0 =
     Some \<lparr>routes =
             [\<lparr>Key = ''route/0.0.0.0/0/eth0'',
               Value = \<lparr>OutgoingInterface = ''eth0'', Scope = StaticRoute_GLOBAL,
                        DstNetwork = ''0.0.0.0/0'', GwAddr = [], Metric = 0\<rparr>,
               Metadata = None, Origin = UnknownOrigin\<rparr>,
              \<lparr>Key = ''route/0.0.0.0/0/eth1'',
               Value = \<lparr>OutgoingInterface = ''eth1'', Scope = StaticRoute_GLOBAL,
                        DstNetwork = ''0.0.0.0/0'', GwAddr = [], Metric = 0\<rparr>,
               Metadata = None, Origin = UnknownOrigin\<rparr>],
           err = None\<rparr> \<and>
   nat (goRoutinesCnt sampleLib sampleHealthy (ListAllInterfaces sampleHealthy)) = 1"
proof -
  let ?ifs = "[''eth0'', ''eth1'']"
  have l2: "dumpRoutesLoop sampleLib sampleHealthy ?ifs 2 1 st = Some st" for st
    by (subst dumpRoutesLoop.simps) simp
  have l1: "dumpRoutesLoop sampleLib sampleHealthy ?ifs 1 1 st =
      dumpRoutesLoop sampleLib sampleHealthy ?ifs 2 1
        (snd (dumpInterface sampleLib sampleHealthy ''eth1'' st))" for st
    by (subst dumpRoutesLoop.simps) (simp add: dumpInterface_healthy sampleHealthy_fields numeral_2_eq_2)
  have l0: "dumpRoutesLoop sampleLib sampleHealthy ?ifs 0 1 st =
      dumpRoutesLoop sampleLib sampleHealthy ?ifs 1 1
        (snd (dumpInterface sampleLib sampleHealthy ''eth0'' st))" for st
    by (subst dumpRoutesLoop.simps) (simp add: dumpInterface_healthy sampleHealthy_fields)
  have c: "nat (goRoutinesCnt sampleLib sampleHealthy ?ifs) = 1"
    by (simp add: goRoutinesCnt_def sdiv_2_3 sampleCollaborators_fields sampleHealthy_fields)
  have "dumpRoutesLoop sampleLib sampleHealthy ?ifs 0 1 (\<lparr>routes = [], err = None\<rparr>, []) =
      Some (\<lparr>routes =
             [\<lparr>Key = ''route/0.0.0.0/0/eth0'',
               Value = \<lparr>OutgoingInterface = ''eth0'', Scope = StaticRoute_GLOBAL,
                        DstNetwork = ''0.0.0.0/0'', GwAddr = [], Metric = 0\<rparr>,
               Metadata = None, Origin = UnknownOrigin\<rparr>,
              \<lparr>Key = ''route/0.0.0.0/0/eth1'',
               Value = \<lparr>OutgoingInterface = ''eth1'', Scope = StaticRoute_GLOBAL,
                        DstNetwork = ''0.0.0.0/0'', GwAddr = [], Metric = 0\<rparr>,
               Metadata = None, Origin = UnknownOrigin\<rparr>],
           err = None\<rparr>,
         [Call_LookupByName ''eth0'', Call_SwitchToNamespace None, Call_GetStaticRoutes 2,
          Call_revertNs, Call_LookupByName ''eth1'', Call_SwitchToNamespace None,
          Call_GetStaticRoutes 3, Call_revertNs])"
    by (simp only: l0 l1 l2 dumpInterface_healthy sampleHealthy_fields) simp
  with c show ?thesis
    unfolding sentByWorker_def dumpRoutes_def sampleHealthy_fields by simp
qed

theorem Dump_returns_at_first_error_witness:
  "0 \<le> goRoutinesCnt sampleLib sampleHealthy (ListAllInterfaces sampleHealthy) \<and>
   distinct [0::nat] \<and>
   set [0] = {..<nat (goRoutinesCnt sampleLib sampleHealthy (ListAllInterfaces sampleHealthy))} \<and>
   Dump sampleLib sampleHealthy [0] [] =
     Some (Inr ([\<lparr>Key = ''route/0.0.0.0/0/eth0'',
               Value = \<lparr>OutgoingInterface = ''eth0'', Scope = StaticRoute_GLOBAL,
                        DstNetwork = ''0.0.0.0/0'', GwAddr = [], Metric = 0\<rparr>,
               Metadata = None, Origin = UnknownOrigin\<rparr>,
             \<lparr>Key = ''route/0.0.0.0/0/eth1'',
               Value = \<lparr>OutgoingInterface = ''eth1'', Scope = StaticRoute_GLOBAL,
                        DstNetwork = ''0.0.0.0/0'', GwAddr = [], Metric = 0\<rparr>,
               Metadata = None, Origin = UnknownOrigin\<rparr>], None)) \<and>
   0 \<le> goRoutinesCnt sampleLib sampleCollaborators (ListAllInterfaces sampleCollaborators) \<and>
   set [0] =
     {..<nat (goRoutinesCnt sampleLib sampleCollaborators (ListAllInterfaces sampleCollaborators))} \<and>
   Dump sampleLib sampleCollaborators [0] [] =
     Some (Inr ([], Some (OtherError ''no such device'')))"
proof -
  have s1: "{0} = {..<Suc 0}"
    by auto
  have ch: "goRoutinesCnt sampleLib sampleHealthy (ListAllInterfaces sampleHealthy) = 1"
    by (simp add: goRoutinesCnt_def sdiv_2_3 sampleCollaborators_fields sampleHealthy_fields)
  have p: "0 \<le> goRoutinesCnt sampleLib sampleHealthy (ListAllInterfaces sampleHealthy) \<and>
      distinct [0::nat] \<and>
      set [0] = {..<nat (goRoutinesCnt sampleLib sampleHealthy (ListAllInterfaces sampleHealthy))}"
    by (simp add: ch s1)
  have q: "0 \<le> goRoutinesCnt sampleLib sampleCollaborators
        (ListAllInterfaces sampleCollaborators) \<and>
      distinct [0::nat] \<and>
      set [0] = {..<nat (goRoutinesCnt sampleLib sampleCollaborators
        (ListAllInterfaces sampleCollaborators))}"
    by (simp add: cnt_sample s1)
  from Dump_returns_at_first_error [OF p, of "[]"] obtain ws where
    ws: "map (sentByWorker sampleLib sampleHealthy) [0] = map Some ws"
      "Dump sampleLib sampleHealthy [0] [] =
         Some (Inr (concat (map routes (takeWhile (\<lambda>w. err w = None) ws)),
                    case dropWhile (\<lambda>w. err w = None) ws of [] \<Rightarrow> None | w # rest \<Rightarrow> err w))"
    by (elim exE conjE)
  from ws(1) obtain w where w: "ws = [w]" "sentByWorker sampleLib sampleHealthy 0 = Some w"
    by (cases ws) auto
  from Dump_returns_at_first_error [OF q, of "[]"] obtain vs where
    vs: "map (sentByWorker sampleLib sampleCollaborators) [0] = map Some vs"
      "Dump sampleLib sampleCollaborators [0] [] =
         Some (Inr (concat (map routes (takeWhile (\<lambda>w. err w = None) vs)),
                    case dropWhile (\<lambda>w. err w = None) vs of [] \<Rightarrow> None | w # rest \<Rightarrow> err w))"
    by (elim exE conjE)
  from vs(1) obtain v where v: "vs = [v]" "sentByWorker sampleLib sampleCollaborators 0 = Some v"
    by (cases vs) auto
  from w ws(2) sent_healthy have d1: "Dump sampleLib sampleHealthy [0] [] =
     Some (Inr ([\<lparr>Key = ''route/0.0.0.0/0/eth0'',
               Value = \<lparr>OutgoingInterface = ''eth0'', Scope = StaticRoute_GLOBAL,
                        DstNetwork = ''0.0.0.0/0'', GwAddr = [], Metric = 0\<rparr>,
               Metadata = None, Origin = UnknownOrigin\<rparr>,
             \<lparr>Key = ''route/0.0.0.0/0/eth1'',
               Value = \<lparr>OutgoingInterface = ''eth1'', Scope = StaticRoute_GLOBAL,
                        DstNetwork = ''0.0.0.0/0'', GwAddr = [], Metric = 0\<rparr>,
               Metadata = None, Origin = UnknownOrigin\<rparr>], None))"
    by auto
  from v vs(2) sent_sample
  have d2: "Dump sampleLib sampleCollaborators [0] [] =
      Some (Inr ([], Some (OtherError ''no such device'')))"
    by auto
  from p q d1 d2 show ?thesis
    by (intro conjI) simp_all
qed

text \<open>
  The claim as first stated has \<open>Dump\<close> never drop an item already gathered: here the
  only worker has gathered the route of \<open>eth0\<close> when reading the routes of \<open>eth1\<close>
  fails, and \<open>Dump\<close> returns the error with no route.
\<close>

theorem Dump_drops_gathered_routes:
  "nat (goRoutinesCnt sampleLib sampleCollaborators (ListAllInterfaces sampleCollaborators)) = 1 \<and>
   sentByWorker sampleLib sampleCollaborators 0 =
     Some \<lparr>routes =
             [\<lparr>Key = ''route/0.0.0.0/0/eth0'',
               Value = \<lparr>OutgoingInterface = ''eth0'', Scope = StaticRoute_GLOBAL,
                        DstNetwork = ''0.0.0.0/0'', GwAddr = [], Metric = 0\<rparr>,
               Metadata = None, Origin = UnknownOrigin\<rparr>],
           err = Some (OtherError ''no such device'')\<rparr> \<and>
   Dump sampleLib sampleCollaborators [0] [] =
     Some (Inr ([], Some (OtherError ''no such device'')))"
  by (simp add: cnt_sample sent_sample Dump_collectLoop)

end
